theory Spec2Isabelle
  imports Main
begin

section \<open>Python string primitives used by the wrappers\<close>

text \<open>
  Python \<open>str\<close> values are modelled as \<open>string\<close>, one \<open>char\<close> per code point, so the
  model covers the code points below 256. The predicates below are Python's own tables
  restricted to that range.
\<close>

definition isspace :: "char \<Rightarrow> bool" where
  \<comment> \<open>\<open>str.isspace\<close>: TAB..CR, FS..US, space, NEL and NBSP.\<close>
  "isspace c =
     (let n = (of_char c :: nat)
      in (9 \<le> n \<and> n \<le> 13) \<or> (28 \<le> n \<and> n \<le> 32) \<or> n = 133 \<or> n = 160)"

definition strip :: "string \<Rightarrow> string" where
  \<comment> \<open>\<open>str.strip()\<close> without argument.\<close>
  "strip s = rev (dropWhile isspace (rev (dropWhile isspace s)))"

definition startswith :: "string \<Rightarrow> string \<Rightarrow> bool" where
  "startswith s p = (take (length p) s = p)"

fun str_contains :: "string \<Rightarrow> string \<Rightarrow> bool" where
  \<comment> \<open>\<open>needle in hay\<close> on strings.\<close>
  "str_contains needle [] = (needle = [])"
| "str_contains needle (c # cs) = (startswith (c # cs) needle \<or> str_contains needle cs)"

definition is_linebreak :: "char \<Rightarrow> bool" where
  \<comment> \<open>The line boundaries of \<open>str.splitlines\<close>: LF, VT, FF, CR, FS, GS, RS, NEL.\<close>
  "is_linebreak c =
     (let n = (of_char c :: nat)
      in (10 \<le> n \<and> n \<le> 13) \<or> (28 \<le> n \<and> n \<le> 30) \<or> n = 133)"

fun splitlines_from :: "string \<Rightarrow> string \<Rightarrow> string list" where
  \<comment> \<open>First argument: the line read so far. CR LF is one boundary; no empty last line.\<close>
  "splitlines_from cur [] = (if cur = [] then [] else [cur])"
| "splitlines_from cur [c] = (if is_linebreak c then [cur] else [cur @ [c]])"
| "splitlines_from cur (c # d # cs) =
     (if c = CHR 0x0D \<and> d = CHR 0x0A then cur # splitlines_from [] cs
      else if is_linebreak c then cur # splitlines_from [] (d # cs)
      else splitlines_from (cur @ [c]) (d # cs))"

definition splitlines :: "string \<Rightarrow> string list" where
  "splitlines s = splitlines_from [] s"

fun split_on_from :: "char \<Rightarrow> string \<Rightarrow> string \<Rightarrow> string list" where
  "split_on_from sep cur [] = [cur]"
| "split_on_from sep cur (c # cs) =
     (if c = sep then cur # split_on_from sep [] cs else split_on_from sep (cur @ [c]) cs)"

definition split_on :: "char \<Rightarrow> string \<Rightarrow> string list" where
  \<comment> \<open>\<open>s.split(sep)\<close> for a one-character separator: always at least one field.\<close>
  "split_on sep s = split_on_from sep [] s"

fun split_ws_from :: "string \<Rightarrow> string \<Rightarrow> string list" where
  "split_ws_from cur [] = (if cur = [] then [] else [cur])"
| "split_ws_from cur (c # cs) =
     (if isspace c then (if cur = [] then split_ws_from [] cs else cur # split_ws_from [] cs)
      else split_ws_from (cur @ [c]) cs)"

definition split_ws :: "string \<Rightarrow> string list" where
  \<comment> \<open>\<open>s.split()\<close>: fields between runs of whitespace, none of them empty.\<close>
  "split_ws s = split_ws_from [] s"

fun digits :: "nat \<Rightarrow> string" where
  "digits n =
     (if n < 10 then [''0123456789'' ! n]
      else digits (n div 10) @ [''0123456789'' ! (n mod 10)])"

declare digits.simps [simp del]

definition str_int :: "int \<Rightarrow> string" where
  \<comment> \<open>\<open>str(i)\<close> and \<open>'%d' % i\<close> for an int.\<close>
  "str_int i = (if i < 0 then CHR ''-'' # digits (nat (- i)) else digits (nat i))"

definition isprintable :: "char \<Rightarrow> bool" where
  \<comment> \<open>\<open>str.isprintable\<close> below 256: ASCII 0x20..0x7E and 0xA1..0xFF except the soft hyphen.\<close>
  "isprintable c =
     (let n = (of_char c :: nat) in (32 \<le> n \<and> n < 127) \<or> (161 \<le> n \<and> n \<noteq> 173))"

definition hex2 :: "char \<Rightarrow> string" where
  "hex2 c =
     (let n = (of_char c :: nat)
      in [''0123456789abcdef'' ! (n div 16), ''0123456789abcdef'' ! (n mod 16)])"

definition repr_char :: "char \<Rightarrow> char \<Rightarrow> string" where
  "repr_char quote c =
     (if c = quote \<or> c = CHR 0x5C then [CHR 0x5C, c]
      else if c = CHR 0x09 then [CHR 0x5C, CHR ''t'']
      else if c = CHR 0x0A then [CHR 0x5C, CHR ''n'']
      else if c = CHR 0x0D then [CHR 0x5C, CHR ''r'']
      else if isprintable c then [c]
      else [CHR 0x5C, CHR ''x''] @ hex2 c)"

definition repr :: "string \<Rightarrow> string" where
  \<comment> \<open>\<open>repr(s)\<close>, the \<open>!r\<close> conversion: double quotes only when the text has a single
      quote and no double quote.\<close>
  "repr s =
     (let quote = (if CHR 0x27 \<in> set s \<and> CHR 0x22 \<notin> set s then CHR 0x22 else CHR 0x27)
      in quote # concat (map (repr_char quote) s) @ [quote])"

section \<open>The error classifier\<close>

text \<open>
  \<^verbatim>\<open>
  def _find_error(output: list[str]) -> str:
      for i, line in enumerate(output):
          if line.startswith("Error:"):
              if i + 1 < len(output):
                  return f"{line.strip()} {output[i + 1].strip()}"
              return line.strip()
      for line in output:
          line = line.strip()
          if line:
              return line
      return "unknown error"
  \<close>
  The first loop runs over \<open>enumerate output\<close>; it reads \<open>output[i + 1]\<close> only under the
  guard \<open>i + 1 < len(output)\<close>. A name cannot start with an underscore here, so
  \<open>_find_error\<close> is \<open>find_error\<close>.
\<close>

fun error_line_loop :: "string list \<Rightarrow> (nat \<times> string) list \<Rightarrow> string option" where
  "error_line_loop output [] = None"
| "error_line_loop output ((i, line) # rest) =
     (if startswith line ''Error:'' then
        (if i + 1 < length output then Some (strip line @ '' '' @ strip (output ! (i + 1)))
         else Some (strip line))
      else error_line_loop output rest)"

fun first_nonempty_loop :: "string list \<Rightarrow> string option" where
  "first_nonempty_loop [] = None"
| "first_nonempty_loop (line # rest) =
     (let line' = strip line in if line' \<noteq> [] then Some line' else first_nonempty_loop rest)"

definition find_error :: "string list \<Rightarrow> string" where
  "find_error output =
     (case error_line_loop output (enumerate 0 output) of
        Some r \<Rightarrow> r
      | None \<Rightarrow>
          (case first_nonempty_loop output of
             Some r \<Rightarrow> r
           | None \<Rightarrow> ''unknown error''))"

section \<open>The environment: configuration, process runner, files, libraries\<close>

datatype exn =
    ValueError string
  | RuntimeError string
  | OSError string
  | IndexError string
  | OtherError string

fun is_OSError :: "exn \<Rightarrow> bool" where
  \<comment> \<open>\<open>except OSError\<close> also catches the subclasses (FileNotFoundError, PermissionError, ...),
      all of them \<open>OSError\<close> here.\<close>
  "is_OSError (OSError msg) = True"
| "is_OSError e = False"

record RunResult =
  return_code :: int
  stdout :: string
  stderr :: string

text \<open>
  Modelled from the spec: \<open>RunResult.successful\<close> of \<open>base.py\<close>, which is not among the
  source files. The spec's process runner reports an exit code, and the search "fails on a
  nonzero exit code" and succeeds "on a zero exit code".
\<close>

definition successful :: "RunResult \<Rightarrow> bool" where
  "successful r = (return_code r = 0)"

text \<open>
  Modelled from the spec: the configuration object returned by \<open>get_config()\<close> of
  \<open>base.py\<close>. It "exposes \<open>executables.<toolName>\<close>, \<open>cpus\<close> (worker-thread count), and
  optional per-tool feature toggles". \<open>hmmer3\<close> is \<open>None\<close> when the configuration has no
  such section, \<open>Some None\<close> when the section has no \<open>multithreading\<close> entry and
  \<open>Some (Some b)\<close> when the entry has the truth value \<open>b\<close>.
\<close>

record config =
  executables_hmmscan :: string
  executables_hmmsearch :: string
  cpus :: int
  hmmer3 :: "bool option option"

datatype parse_source = FromText string | FromFile string

text \<open>
  What the program does to the outside is recorded, in order, as a list of events; the
  only other state is the attribute \<open>run_hmmscan_help.help_text\<close> (the empty string when
  unset, as the default of \<open>getattr\<close>). The wall-clock timers and the totals they add up
  are floating point and decide nothing: the log events keep the label and leave the
  number out.
\<close>

datatype event =
    Executed "string list" "string option" "exn + RunResult"
  | Wrote string string
  | PyhmmerSearch string
  | Logged string string
  | Parsed parse_source string
  | EnteredTempDir
  | LeftTempDir

record state =
  help_text :: string
  trace :: "event list"

text \<open>
  The answers of the outside world. \<open>execute\<close> is the process runner of \<open>base.py\<close>: it
  returns a \<open>RunResult\<close> whatever the exit code and raises when the launch fails; its
  first argument is the number of processes launched before, so that the same command
  may be answered differently each time. The other fields are \<open>open(path, "w")\<close> followed
  by \<open>write\<close>, \<open>open(path, "wb")\<close>, the readers and searches of pyhmmer,
  \<open>TopHits.write\<close> (with its \<open>header\<close> flag) and \<open>list(SearchIO.parse(...))\<close>; each may
  raise. \<open>'q\<close> is the type of a parsed query result, \<open>'h\<close> that of a pyhmmer hit block.
\<close>

record ('q, 'h) world =
  get_config :: config
  execute :: "nat \<Rightarrow> string list \<Rightarrow> string option \<Rightarrow> exn + RunResult"
  open_write :: "string \<Rightarrow> string \<Rightarrow> exn option"
  open_wb :: "string \<Rightarrow> exn option"
  easel_SequenceFile :: "string \<Rightarrow> exn option"
  plan7_HMMFile :: "string \<Rightarrow> exn option"
  hmmer_hmmscan :: "string \<Rightarrow> string \<Rightarrow> exn + 'h list"
  hmmer_hmmsearch :: "string \<Rightarrow> string \<Rightarrow> exn + 'h list"
  tophits_write :: "'h \<Rightarrow> bool \<Rightarrow> exn option"
  SearchIO_parse :: "parse_source \<Rightarrow> string \<Rightarrow> exn + 'q list"

type_synonym 'a result = "(exn + 'a) \<times> state"

fun is_launch :: "event \<Rightarrow> bool" where
  "is_launch (Executed command stdin r) = True"
| "is_launch ev = False"

definition launch_count :: "event list \<Rightarrow> nat" where
  "launch_count evs = length (filter is_launch evs)"

definition emit :: "event \<Rightarrow> state \<Rightarrow> state" where
  "emit ev s = s\<lparr>trace := trace s @ [ev]\<rparr>"

definition and_then :: "'a result \<Rightarrow> ('a \<Rightarrow> state \<Rightarrow> 'b result) \<Rightarrow> 'b result" where
  \<comment> \<open>Sequencing: an exception ends the block, a value goes on to the next statement.\<close>
  "and_then r f = (case r of (Inl e, s) \<Rightarrow> (Inl e, s) | (Inr x, s) \<Rightarrow> f x s)"

definition check :: "exn option \<Rightarrow> state \<Rightarrow> unit result" where
  "check r s = (case r of Some e \<Rightarrow> (Inl e, s) | None \<Rightarrow> (Inr (), s))"

definition call_execute ::
  "('q, 'h) world \<Rightarrow> string list \<Rightarrow> string option \<Rightarrow> state \<Rightarrow> RunResult result" where
  "call_execute w command stdin s =
     (let r = execute w (launch_count (trace s)) command stdin
      in (r, emit (Executed command stdin r) s))"

definition write_text :: "('q, 'h) world \<Rightarrow> string \<Rightarrow> string \<Rightarrow> state \<Rightarrow> unit result" where
  \<comment> \<open>\<open>with open(path, "w", encoding="utf-8") as handle: handle.write(content)\<close>\<close>
  "write_text w path content s =
     (case open_write w path content of
        Some e \<Rightarrow> (Inl e, s)
      | None \<Rightarrow> (Inr (), emit (Wrote path content) s))"

fun write_rest :: "('q, 'h) world \<Rightarrow> 'h list \<Rightarrow> exn option" where
  \<comment> \<open>\<open>for hit in hits_list[1:]: hit.write(fp, format="domains", header=False)\<close>\<close>
  "write_rest w [] = None"
| "write_rest w (hit # hits) =
     (case tophits_write w hit False of Some e \<Rightarrow> Some e | None \<Rightarrow> write_rest w hits)"

definition write_hits :: "('q, 'h) world \<Rightarrow> string \<Rightarrow> 'h list \<Rightarrow> exn option" where
  \<comment> \<open>The block that all three shadow searches end with: open the output file,
      \<open>hits_list[0].write(..., header=True)\<close>, the loop over the rest, close.
      \<open>hits_list[0]\<close> of an empty list raises IndexError.\<close>
  "write_hits w path hits_list =
     (case open_wb w path of
        Some e \<Rightarrow> Some e
      | None \<Rightarrow>
          (case hits_list of
             [] \<Rightarrow> Some (IndexError ''list index out of range'')
           | first # rest \<Rightarrow>
               (case tophits_write w first True of
                  Some e \<Rightarrow> Some e
                | None \<Rightarrow> write_rest w rest)))"

section \<open>hmmscan\<close>

text \<open>
  The two search functions begin with \<open>import time\<close> and \<open>from pyhmmer import ...\<close>; the
  imports are taken to succeed. Each function below follows its source statement by
  statement; a block of the source that a name is given to here is marked with its lines.
\<close>

definition run_hmmscan_help :: "('q, 'h) world \<Rightarrow> state \<Rightarrow> string result" where
  "run_hmmscan_help w s =
     (if help_text s \<noteq> [] then (Inr (help_text s), s)
      else
        (let hmmscan = executables_hmmscan (get_config w);
             command = [hmmscan, ''-h'']
         in and_then (call_execute w command None s) (\<lambda>r s.
              if \<not> startswith (stdout r) ''# hmmscan'' then
                (Inl (RuntimeError
                   (''unexpected output from hmmscan: '' @ hmmscan @ '', check path'')), s)
              else (Inr (stdout r), s\<lparr>help_text := stdout r\<rparr>))))"

definition version_of_help :: "string \<Rightarrow> exn + string" where
  \<comment> \<open>\<open>help_text.split('\n')[1].split()[2]\<close>\<close>
  "version_of_help text =
     (case split_on (CHR 0x0A) text of
        banner # version_line # others \<Rightarrow>
          (case split_ws version_line of
             f0 # f1 # version # others \<Rightarrow> Inr version
           | _ \<Rightarrow> Inl (IndexError ''list index out of range''))
      | _ \<Rightarrow> Inl (IndexError ''list index out of range''))"

definition run_hmmscan_version :: "('q, 'h) world \<Rightarrow> state \<Rightarrow> string result" where
  "run_hmmscan_version w s =
     and_then (run_hmmscan_help w s) (\<lambda>text s. (version_of_help text, s))"

definition hmmscan_command :: "config \<Rightarrow> string \<Rightarrow> string list option \<Rightarrow> string \<Rightarrow> string list" where
  \<comment> \<open>Lines 58 to 66 of \<open>run_hmmscan\<close>; \<open>help\<close> is what \<open>run_hmmscan_help()\<close> returned.\<close>
  "hmmscan_command config help opts target_hmmfile =
     (let command = [executables_hmmscan config, ''--cpu'', str_int (cpus config), ''--nobias''];
          command = (if \<not> str_contains '' --cpu '' help then take 1 command @ drop 3 command
                     else command);
          command = (case opts of None \<Rightarrow> command | Some extra \<Rightarrow> command @ extra)
      in command @ [target_hmmfile, ''-''])"

definition hmmscan_failure :: "RunResult \<Rightarrow> string \<Rightarrow> string" where
  \<comment> \<open>The message of the RuntimeError raised on an unsuccessful run.\<close>
  "hmmscan_failure r query_sequence =
     (''hmmscan returned '' @ str_int (return_code r) @ '': '')
     @ ([CHR 0x27]
        @ find_error (splitlines (if stderr r \<noteq> [] then stderr r else stdout r))
        @ [CHR 0x27])
     @ ('' while scanning '' @ repr (take 100 query_sequence) @ ''...'')"

definition pyhmmscan :: "('q, 'h) world \<Rightarrow> string \<Rightarrow> string \<Rightarrow> state \<Rightarrow> unit result" where
  \<comment> \<open>The lines between \<open># pyhmmscan begins\<close> and \<open># pyhmmscan ends\<close>.\<close>
  "pyhmmscan w target_hmmfile query_sequence s =
     and_then (write_text w ''hmmscan_query.fa'' query_sequence s) (\<lambda>u s.
     and_then (check (easel_SequenceFile w ''hmmscan_query.fa'') s) (\<lambda>u s.
     and_then (check (plan7_HMMFile w target_hmmfile) s) (\<lambda>u s.
     and_then (hmmer_hmmscan w ''hmmscan_query.fa'' target_hmmfile,
               emit (PyhmmerSearch ''hmmscan'') s) (\<lambda>hits_list s.
     and_then (check (write_hits w ''pyhmmscan_output.txt'' hits_list) s) (\<lambda>u s.
       (Inr (), emit (Logged ''INFO'' ''pyhmmscan_time'') s))))))"

definition run_hmmscan ::
  "('q, 'h) world \<Rightarrow> string \<Rightarrow> string \<Rightarrow> string list option \<Rightarrow> string option \<Rightarrow> state
     \<Rightarrow> 'q list result" where
  "run_hmmscan w target_hmmfile query_sequence opts results_file s =
     (if query_sequence = [] then
        (Inl (ValueError ''Cannot run hmmscan on empty sequence''), s)
      else
        and_then (run_hmmscan_help w s) (\<lambda>help s.
        and_then (call_execute w (hmmscan_command (get_config w) help opts target_hmmfile)
                    (Some query_sequence) s) (\<lambda>r s.
        (let s = emit (Logged ''INFO'' ''hmmscan_time'') s
         in if \<not> successful r then (Inl (RuntimeError (hmmscan_failure r query_sequence)), s)
            else
              and_then (case results_file of
                          None \<Rightarrow> (Inr (), s)
                        | Some path \<Rightarrow> write_text w path (stdout r) s) (\<lambda>u s.
              and_then (pyhmmscan w target_hmmfile query_sequence s) (\<lambda>u s.
                (SearchIO_parse w (FromText (stdout r)) ''hmmer3-text'',
                 emit (Parsed (FromText (stdout r)) ''hmmer3-text'') s)))))))"

section \<open>hmmsearch\<close>

definition devnull :: string where
  \<comment> \<open>\<open>os.devnull\<close> on a POSIX system.\<close>
  "devnull = ''/dev/null''"

definition hmmsearch_command :: "config \<Rightarrow> string \<Rightarrow> string list" where
  \<comment> \<open>Lines 43 to 51 of \<open>run_hmmsearch\<close>.\<close>
  "hmmsearch_command config query_hmmfile =
     (let command = [executables_hmmsearch config, ''--cpu'', str_int (cpus config),
                     ''-o'', devnull, ''--domtblout'', ''result.domtab'', query_hmmfile]
      in if (case hmmer3 config of
               Some (Some multithreading) \<Rightarrow> \<not> multithreading
             | _ \<Rightarrow> False)
         then take 1 command @ drop 3 command
         else command)"

definition pyhmmsearch ::
  "('q, 'h) world \<Rightarrow> string \<Rightarrow> string \<Rightarrow> bool \<Rightarrow> state \<Rightarrow> unit result" where
  \<comment> \<open>The lines between \<open># pyhmmer search begins\<close> and \<open># pyhmmer search ends\<close>, in the
      branch chosen by \<open>use_tempfile\<close>.\<close>
  "pyhmmsearch w query_hmmfile target_sequence use_tempfile s =
     (if use_tempfile then
        and_then (check (plan7_HMMFile w query_hmmfile) s) (\<lambda>u s.
        and_then (check (easel_SequenceFile w ''input.fa'') s) (\<lambda>u s.
        and_then (hmmer_hmmsearch w query_hmmfile ''input.fa'',
                  emit (PyhmmerSearch ''hmmsearch'') s) (\<lambda>hits_list s.
        and_then (check (write_hits w ''result_pyhmmer.domtab'' hits_list) s) (\<lambda>u s.
          (Inr (), emit (Logged ''INFO'' ''pyhmmsearch_time_1'') s)))))
      else
        and_then (write_text w ''input_stdin_pyhmmer.fa'' target_sequence s) (\<lambda>u s.
        and_then (check (plan7_HMMFile w query_hmmfile) s) (\<lambda>u s.
        and_then (check (easel_SequenceFile w ''input_stdin_pyhmmer.fa'') s) (\<lambda>u s.
        and_then (hmmer_hmmsearch w query_hmmfile ''input_stdin_pyhmmer.fa'',
                  emit (PyhmmerSearch ''hmmsearch'') s) (\<lambda>hits_list s.
        and_then (check (write_hits w ''result_stdin_pyhmmer.domtab'' hits_list) s) (\<lambda>u s.
          (Inr (), emit (Logged ''INFO'' ''pyhmmsearch_time_2'') s)))))))"

definition hmmsearch_attempt ::
  "('q, 'h) world \<Rightarrow> string \<Rightarrow> string \<Rightarrow> bool \<Rightarrow> string list \<Rightarrow> state \<Rightarrow> RunResult result" where
  \<comment> \<open>The body of the \<open>try\<close> block; its value is \<open>run_result\<close>.\<close>
  "hmmsearch_attempt w query_hmmfile target_sequence use_tempfile command s =
     (if use_tempfile then
        and_then (write_text w ''input.fa'' target_sequence s) (\<lambda>u s.
        and_then (call_execute w (command @ [''input.fa'']) None s) (\<lambda>run_result s.
        and_then (pyhmmsearch w query_hmmfile target_sequence True
                    (emit (Logged ''INFO'' ''hmmsearch_time_1'') s)) (\<lambda>u s.
          (Inr run_result, s))))
      else
        and_then (call_execute w (command @ [''-'']) (Some target_sequence) s) (\<lambda>run_result s.
        and_then (pyhmmsearch w query_hmmfile target_sequence False
                    (emit (Logged ''INFO'' ''hmmsearch_time_2'') s)) (\<lambda>u s.
          (Inr run_result, s))))"

definition hmmsearch_failure_log :: "RunResult \<Rightarrow> string \<Rightarrow> string" where
  \<comment> \<open>\<open>'hmmsearch returned %d: %s while searching %s'\<close> with its three arguments.\<close>
  "hmmsearch_failure_log r query_hmmfile =
     ''hmmsearch returned '' @ str_int (return_code r) @ '': '' @ stderr r
     @ '' while searching '' @ query_hmmfile"

definition run_hmmsearch ::
  "('q, 'h) world \<Rightarrow> string \<Rightarrow> string \<Rightarrow> bool \<Rightarrow> state \<Rightarrow> 'q list result" where
  "run_hmmsearch w query_hmmfile target_sequence use_tempfile s =
     (let command = hmmsearch_command (get_config w) query_hmmfile;
          (outcome, s) =
            (case hmmsearch_attempt w query_hmmfile target_sequence use_tempfile command
                    (emit EnteredTempDir s) of
               (Inl e, s) \<Rightarrow> if is_OSError e then (Inr [], s) else (Inl e, s)
             | (Inr run_result, s) \<Rightarrow>
                 if \<not> successful run_result then
                   (Inl (RuntimeError ''Running hmmsearch failed.''),
                    emit (Logged ''ERROR'' (hmmsearch_failure_log run_result query_hmmfile)) s)
                 else
                   (SearchIO_parse w (FromFile ''result.domtab'') ''hmmsearch3-domtab'',
                    emit (Parsed (FromFile ''result.domtab'') ''hmmsearch3-domtab'') s))
      in (outcome, emit LeftTempDir s))"

definition run_hmmsearch_version :: "('q, 'h) world \<Rightarrow> state \<Rightarrow> string result" where
  "run_hmmsearch_version w s =
     (let hmmsearch = executables_hmmsearch (get_config w);
          command = [hmmsearch, ''-h'']
      in and_then (call_execute w command None s) (\<lambda>r s.
           if \<not> startswith (stdout r) ''# hmmsearch'' then
             (Inl (RuntimeError
                (''unexpected output from hmmsearch: '' @ hmmsearch @ '', check path'')), s)
           else (version_of_help (stdout r), s)))"

section \<open>Repeated calls and a check on traces\<close>

fun repeat_call :: "(state \<Rightarrow> 'a result) \<Rightarrow> nat \<Rightarrow> state \<Rightarrow> (exn + 'a) list \<times> state" where
  \<comment> \<open>\<open>n\<close> calls one after the other in one process: the outcomes in order and the last state.\<close>
  "repeat_call f 0 s = ([], s)"
| "repeat_call f (Suc n) s =
     (case f s of (r, s') \<Rightarrow> (case repeat_call f n s' of (rs, s'') \<Rightarrow> (r # rs, s'')))"

definition is_scan_launch :: "string \<Rightarrow> string \<Rightarrow> string list \<Rightarrow> string option \<Rightarrow> bool" where
  \<comment> \<open>The search launch of \<open>run_hmmscan\<close> for this request: the command ends with the
      model path and \<open>-\<close>, and the query is piped in. The \<open>-h\<close> probe is not one.\<close>
  "is_scan_launch target_hmmfile query_sequence command stdin =
     (stdin = Some query_sequence \<and>
      drop (length command - 2) command = [target_hmmfile, ''-''])"

definition is_search_launch :: "bool \<Rightarrow> string \<Rightarrow> string list \<Rightarrow> string option \<Rightarrow> bool" where
  \<comment> \<open>The search launch of \<open>run_hmmsearch\<close> for this request, in the branch chosen by
      \<open>use_tempfile\<close>.\<close>
  "is_search_launch use_tempfile target_sequence command stdin =
     (if use_tempfile then stdin = None \<and> last command = ''input.fa''
      else stdin = Some target_sequence \<and> last command = ''-'')"

fun launches :: "(string list \<Rightarrow> string option \<Rightarrow> bool) \<Rightarrow> event \<Rightarrow> bool" where
  \<comment> \<open>The event is a launch that \<open>search\<close> recognises.\<close>
  "launches search (Executed command stdin r) = search command stdin"
| "launches search ev = False"

fun shadow_only_after ::
  "(string list \<Rightarrow> string option \<Rightarrow> bool) \<Rightarrow> (RunResult \<Rightarrow> bool) \<Rightarrow> bool \<Rightarrow> event list
     \<Rightarrow> bool" where
  \<comment> \<open>No embedded search in the events unless the search process (a launch that \<open>search\<close>
      recognises) was launched before it and the last such launch came back with a result
      that \<open>ok\<close> accepts; \<open>allowed\<close> says whether that holds at the start. Any other launch,
      the \<open>-h\<close> probe for one, changes nothing.\<close>
  "shadow_only_after search ok allowed [] = True"
| "shadow_only_after search ok allowed (Executed command stdin r # evs) =
     shadow_only_after search ok
       (if search command stdin then (case r of Inl e \<Rightarrow> False | Inr res \<Rightarrow> ok res)
        else allowed) evs"
| "shadow_only_after search ok allowed (PyhmmerSearch tool # evs) =
     (allowed \<and> shadow_only_after search ok allowed evs)"
| "shadow_only_after search ok allowed (ev # evs) = shadow_only_after search ok allowed evs"

fun is_shadow_search :: "event \<Rightarrow> bool" where
  "is_shadow_search (PyhmmerSearch tool) = True"
| "is_shadow_search ev = False"

definition new_events :: "state \<Rightarrow> state \<Rightarrow> event list" where
  \<comment> \<open>The events a call added: the trace only grows.\<close>
  "new_events s s' = drop (length (trace s)) (trace s')"

section \<open>Concrete environments\<close>

definition config0 :: config where
  "config0 = \<lparr>executables_hmmscan = ''hmmscan'', executables_hmmsearch = ''hmmsearch'',
              cpus = 4, hmmer3 = None\<rparr>"

definition state0 :: state where
  "state0 = \<lparr>help_text = [], trace = []\<rparr>"

definition scan_help0 :: RunResult where
  \<comment> \<open>A help text with the banner and a version line, without the \<open>--cpu\<close> option.\<close>
  "scan_help0 = \<lparr>return_code = 0,
                  stdout = ''# hmmscan :: search'' @ [CHR 0x0A] @ ''# HMMER 3.3.2 (Nov 2020)'',
                  stderr = []\<rparr>"

definition search_help0 :: RunResult where
  "search_help0 = \<lparr>return_code = 0,
                    stdout = ''# hmmsearch :: search'' @ [CHR 0x0A] @ ''# HMMER 3.3.2 (Nov 2020)'',
                    stderr = []\<rparr>"

definition exit_with :: "int \<Rightarrow> string \<Rightarrow> string \<Rightarrow> RunResult" where
  "exit_with code out err = \<lparr>return_code = code, stdout = out, stderr = err\<rparr>"

definition execute0 :: "RunResult \<Rightarrow> nat \<Rightarrow> string list \<Rightarrow> string option \<Rightarrow> exn + RunResult" where
  \<comment> \<open>Both tools answer \<open>-h\<close> with their help text; a search comes back with \<open>r\<close>.\<close>
  "execute0 r n command stdin =
     (if command = [''hmmscan'', ''-h''] then Inr scan_help0
      else if command = [''hmmsearch'', ''-h''] then Inr search_help0
      else Inr r)"

definition world0 :: "RunResult \<Rightarrow> (nat, nat) world" where
  \<comment> \<open>Every file operation and every library call succeeds; the embedded search finds one
      hit block and the parser reads two query results.\<close>
  "world0 r =
     \<lparr>get_config = config0,
      execute = execute0 r,
      open_write = (\<lambda>path content. None),
      open_wb = (\<lambda>path. None),
      easel_SequenceFile = (\<lambda>path. None),
      plan7_HMMFile = (\<lambda>path. None),
      hmmer_hmmscan = (\<lambda>seqs hmms. Inr [7]),
      hmmer_hmmsearch = (\<lambda>hmms seqs. Inr [7]),
      tophits_write = (\<lambda>hit header. None),
      SearchIO_parse = (\<lambda>src fmt. Inr [1, 2])\<rparr>"

definition failed_scan :: RunResult where
  \<comment> \<open>The failing run of the spec's scenario.\<close>
  "failed_scan = exit_with 1 []
     (''Error: file not found'' @ [CHR 0x0A] @ ''  models/test.hmm'' @ [CHR 0x0A])"

definition no_banner :: RunResult where
  \<comment> \<open>What a wrong executable prints for \<open>-h\<close>.\<close>
  "no_banner = exit_with 0 ''usage: true'' []"

definition world_no_banner :: "(nat, nat) world" where
  \<comment> \<open>The configured paths point at some other program.\<close>
  "world_no_banner = (world0 no_banner)\<lparr>execute := (\<lambda>n command stdin. Inr no_banner)\<rparr>"

definition world_write_fails :: "(nat, nat) world" where
  \<comment> \<open>No file can be written: the disk is full.\<close>
  "world_write_fails =
     (world0 (exit_with 0 [] []))\<lparr>open_write := (\<lambda>path content. Some (OSError ''No space left''))\<rparr>"

definition world_not_installed :: "(nat, nat) world" where
  \<comment> \<open>The executables are missing: every launch raises FileNotFoundError.\<close>
  "world_not_installed =
     (world0 (exit_with 0 [] []))\<lparr>execute := (\<lambda>n command stdin. Inl (OSError ''No such file''))\<rparr>"

definition world_model_unreadable :: "RunResult \<Rightarrow> (nat, nat) world" where
  \<comment> \<open>The external tool runs and comes back with \<open>r\<close>; pyhmmer cannot open the model file.\<close>
  "world_model_unreadable r =
     (world0 r)\<lparr>plan7_HMMFile := (\<lambda>path. Some (OSError ''Permission denied''))\<rparr>"

definition world_no_hits :: "RunResult \<Rightarrow> (nat, nat) world" where
  \<comment> \<open>The external tool comes back with \<open>r\<close>; the embedded searches find nothing.\<close>
  "world_no_hits r =
     (world0 r)\<lparr>hmmer_hmmscan := (\<lambda>seqs hmms. Inr []), hmmer_hmmsearch := (\<lambda>hmms seqs. Inr [])\<rparr>"

definition world_table_missing :: "(nat, nat) world" where
  \<comment> \<open>The tool exits with code zero but leaves no \<open>result.domtab\<close>: opening it for parsing
      raises FileNotFoundError.\<close>
  "world_table_missing =
     (world0 (exit_with 0 [] []))\<lparr>SearchIO_parse := (\<lambda>src fmt. Inl (OSError ''No such file''))\<rparr>"

section \<open>Basic facts about the sequencing operators and the trace\<close>

lemma and_then_Inl [simp]: "and_then (Inl e, s) f = (Inl e, s)"
  by (simp add: and_then_def)

lemma and_then_Inr [simp]: "and_then (Inr x, s) f = f x s"
  by (simp add: and_then_def)

lemma check_None [simp]: "check None s = (Inr (), s)"
  by (simp add: check_def)

lemma check_Some [simp]: "check (Some e) s = (Inl e, s)"
  by (simp add: check_def)

lemma trace_emit [simp]: "trace (emit ev s) = trace s @ [ev]"
  by (simp add: emit_def)

lemma help_text_emit [simp]: "help_text (emit ev s) = help_text s"
  by (simp add: emit_def)

lemma launch_count_append [simp]:
  "launch_count (evs @ evs') = launch_count evs + launch_count evs'"
  by (simp add: launch_count_def)

lemma launch_count_Nil [simp]: "launch_count [] = 0"
  by (simp add: launch_count_def)

lemma launch_count_Cons [simp]:
  "launch_count (ev # evs) = (if is_launch ev then 1 else 0) + launch_count evs"
  by (simp add: launch_count_def)

lemmas world0_simps =
  world0_def config0_def execute0_def scan_help0_def search_help0_def exit_with_def state0_def

lemmas run_defs =
  run_hmmscan_def run_hmmscan_help_def run_hmmsearch_def run_hmmsearch_version_def
  hmmsearch_attempt_def pyhmmsearch_def pyhmmscan_def call_execute_def write_text_def
  write_hits_def hmmscan_command_def hmmsearch_command_def successful_def startswith_def
  devnull_def Let_def

section \<open>The outcome of the embedded searches\<close>

lemma pyhmmsearch_outcome:
  "fst (pyhmmsearch w query_hmmfile target_sequence use_tempfile s) =
   fst (pyhmmsearch w query_hmmfile target_sequence use_tempfile s')"
  by (simp add: pyhmmsearch_def write_text_def and_then_def check_def
      split: option.split sum.split)

lemma pyhmmscan_outcome:
  "fst (pyhmmscan w target_hmmfile query_sequence s) =
   fst (pyhmmscan w target_hmmfile query_sequence s')"
  by (simp add: pyhmmscan_def write_text_def and_then_def check_def
      split: option.split sum.split)

lemma attempt_after_launch:
  assumes "if use_tempfile
           then open_write w ''input.fa'' target_sequence = None \<and>
                execute w (launch_count (trace s)) (command @ [''input.fa'']) None = Inr r
           else execute w (launch_count (trace s)) (command @ [''-'']) (Some target_sequence) = Inr r"
  shows "fst (hmmsearch_attempt w query_hmmfile target_sequence use_tempfile command s) =
     (case fst (pyhmmsearch w query_hmmfile target_sequence use_tempfile s') of
        Inl e \<Rightarrow> Inl e | Inr u \<Rightarrow> Inr r)"
proof (cases use_tempfile)
  case True
  define s1 where "s1 = emit (Logged ''INFO'' ''hmmsearch_time_1'')
      (emit (Executed (command @ [''input.fa'']) None (Inr r))
        (emit (Wrote ''input.fa'' target_sequence) s))"
  obtain pr s2 where py: "pyhmmsearch w query_hmmfile target_sequence True s1 = (pr, s2)"
    by (cases "pyhmmsearch w query_hmmfile target_sequence True s1")
  then have "fst (pyhmmsearch w query_hmmfile target_sequence True s') = pr"
    using pyhmmsearch_outcome [of w query_hmmfile target_sequence True s' s1] by simp
  with assms True py show ?thesis
    by (cases pr)
      (simp_all add: hmmsearch_attempt_def write_text_def call_execute_def Let_def s1_def)
next
  case False
  define s1 where "s1 = emit (Logged ''INFO'' ''hmmsearch_time_2'')
      (emit (Executed (command @ [''-'']) (Some target_sequence) (Inr r)) s)"
  obtain pr s2 where py: "pyhmmsearch w query_hmmfile target_sequence False s1 = (pr, s2)"
    by (cases "pyhmmsearch w query_hmmfile target_sequence False s1")
  then have "fst (pyhmmsearch w query_hmmfile target_sequence False s') = pr"
    using pyhmmsearch_outcome [of w query_hmmfile target_sequence False s' s1] by simp
  with assms False py show ?thesis
    by (cases pr)
      (simp_all add: hmmsearch_attempt_def call_execute_def Let_def s1_def)
qed

section \<open>Failures of the embedded search\<close>

text \<open>
  Claim C1, as amended. A failure in the embedded-library path is not kept from the
  caller. In \<open>run_hmmscan\<close>, once hmmscan has exited with code zero and the
  optional results file is written, any exception of the embedded path (the IndexError of
  an empty hit list included) is what the call raises, in place of the parsed result. In
  \<open>run_hmmsearch\<close>, once hmmsearch has come back, an OSError of the embedded path makes
  the call return the empty list and any other exception of that path is what the call
  raises.
\<close>

theorem shadow_failure_reaches_caller:
  "(query_sequence \<noteq> [] \<and> run_hmmscan_help w s = (Inr probe_text, s1) \<and>
    execute w (launch_count (trace s1))
      (hmmscan_command (get_config w) probe_text opts target_hmmfile) (Some query_sequence) = Inr r \<and>
    return_code r = 0 \<and>
    (\<forall>path. results_file = Some path \<longrightarrow> open_write w path (stdout r) = None) \<and>
    fst (pyhmmscan w target_hmmfile query_sequence s0) = Inl e \<longrightarrow>
      fst (run_hmmscan w target_hmmfile query_sequence opts results_file s) = Inl e)
   \<and> ((if use_tempfile
        then open_write w ''input.fa'' target_sequence = None \<and>
             execute w (launch_count (trace s))
               (hmmsearch_command (get_config w) query_hmmfile @ [''input.fa'']) None = Inr r
        else execute w (launch_count (trace s))
               (hmmsearch_command (get_config w) query_hmmfile @ [''-''])
               (Some target_sequence) = Inr r) \<and>
      fst (pyhmmsearch w query_hmmfile target_sequence use_tempfile s0) = Inl e \<longrightarrow>
        fst (run_hmmsearch w query_hmmfile target_sequence use_tempfile s) =
          (if is_OSError e then Inr [] else Inl e))"
proof (intro conjI impI)
  assume a: "query_sequence \<noteq> [] \<and> run_hmmscan_help w s = (Inr probe_text, s1) \<and>
    execute w (launch_count (trace s1))
      (hmmscan_command (get_config w) probe_text opts target_hmmfile) (Some query_sequence) = Inr r \<and>
    return_code r = 0 \<and>
    (\<forall>path. results_file = Some path \<longrightarrow> open_write w path (stdout r) = None) \<and>
    fst (pyhmmscan w target_hmmfile query_sequence s0) = Inl e"
  define s2 where "s2 = emit (Logged ''INFO'' ''hmmscan_time'')
      (emit (Executed (hmmscan_command (get_config w) probe_text opts target_hmmfile)
              (Some query_sequence) (Inr r)) s1)"
  define s3 where "s3 = (case results_file of None \<Rightarrow> s2
                         | Some path \<Rightarrow> emit (Wrote path (stdout r)) s2)"
  have keep: "(case results_file of None \<Rightarrow> (Inr (), s2)
               | Some path \<Rightarrow> write_text w path (stdout r) s2) = (Inr (), s3)"
    using a by (cases results_file) (simp_all add: s3_def write_text_def)
  obtain pr s4 where py: "pyhmmscan w target_hmmfile query_sequence s3 = (pr, s4)"
    by (cases "pyhmmscan w target_hmmfile query_sequence s3")
  then have "pr = Inl e"
    using a pyhmmscan_outcome [of w target_hmmfile query_sequence s3 s0] by simp
  moreover have "run_hmmscan w target_hmmfile query_sequence opts results_file s =
      and_then (case results_file of None \<Rightarrow> (Inr (), s2)
                | Some path \<Rightarrow> write_text w path (stdout r) s2) (\<lambda>u s.
        and_then (pyhmmscan w target_hmmfile query_sequence s) (\<lambda>u s.
          (SearchIO_parse w (FromText (stdout r)) ''hmmer3-text'',
           emit (Parsed (FromText (stdout r)) ''hmmer3-text'') s)))"
    using a unfolding s2_def
    by (cases results_file) (simp_all add: run_hmmscan_def call_execute_def Let_def successful_def)
  ultimately
  show "fst (run_hmmscan w target_hmmfile query_sequence opts results_file s) = Inl e"
    using keep py by simp
next
  assume a: "(if use_tempfile
        then open_write w ''input.fa'' target_sequence = None \<and>
             execute w (launch_count (trace s))
               (hmmsearch_command (get_config w) query_hmmfile @ [''input.fa'']) None = Inr r
        else execute w (launch_count (trace s))
               (hmmsearch_command (get_config w) query_hmmfile @ [''-''])
               (Some target_sequence) = Inr r) \<and>
      fst (pyhmmsearch w query_hmmfile target_sequence use_tempfile s0) = Inl e"
  obtain ar s1 where att: "hmmsearch_attempt w query_hmmfile target_sequence use_tempfile
        (hmmsearch_command (get_config w) query_hmmfile) (emit EnteredTempDir s) = (ar, s1)"
    by (cases "hmmsearch_attempt w query_hmmfile target_sequence use_tempfile
        (hmmsearch_command (get_config w) query_hmmfile) (emit EnteredTempDir s)")
  have "ar = Inl e"
    using a att attempt_after_launch [of use_tempfile w target_sequence "emit EnteredTempDir s"
        "hmmsearch_command (get_config w) query_hmmfile" r query_hmmfile s0]
    by (simp split: if_splits)
  with att show "fst (run_hmmsearch w query_hmmfile target_sequence use_tempfile s) =
          (if is_OSError e then Inr [] else Inl e)"
    by (simp add: run_hmmsearch_def Let_def)
qed

theorem shadow_failure_reaches_caller_witness:
  "fst (run_hmmscan (world_no_hits (exit_with 0 ''hits'' [])) ''m.hmm'' ''>s'' None
         (Some ''out.txt'') state0) = Inl (IndexError ''list index out of range'')
   \<and> fst (run_hmmsearch (world_model_unreadable (exit_with 0 [] [])) ''q.hmm'' ''>a'' True state0)
       = Inr []
   \<and> fst (run_hmmsearch (world_no_hits (exit_with 0 [] [])) ''q.hmm'' ''>a'' False state0)
       = Inl (IndexError ''list index out of range'')"
proof (intro conjI)
  let ?w = "world_no_hits (exit_with 0 ''hits'' [])"
  define s1 where "s1 = (emit (Executed [''hmmscan'', ''-h''] None (Inr scan_help0)) state0)
                          \<lparr>help_text := stdout scan_help0\<rparr>"
  have "query_sequence \<noteq> [] \<and> run_hmmscan_help ?w state0 = (Inr (stdout scan_help0), s1) \<and>
    execute ?w (launch_count (trace s1))
      (hmmscan_command (get_config ?w) (stdout scan_help0) None ''m.hmm'') (Some query_sequence)
      = Inr (exit_with 0 ''hits'' []) \<and>
    return_code (exit_with 0 ''hits'' []) = 0 \<and>
    (\<forall>path. Some ''out.txt'' = Some path \<longrightarrow>
        open_write ?w path (stdout (exit_with 0 ''hits'' [])) = None) \<and>
    fst (pyhmmscan ?w ''m.hmm'' query_sequence state0) = Inl (IndexError ''list index out of range'')"
    if "query_sequence = ''>s''" for query_sequence
    using that
    by (simp add: run_hmmscan_help_def call_execute_def Let_def world_no_hits_def world0_def
        config0_def execute0_def state0_def s1_def startswith_def scan_help0_def
        hmmscan_command_def exit_with_def pyhmmscan_def write_text_def write_hits_def)
  from shadow_failure_reaches_caller [where w = ?w and s = state0
      and probe_text = "stdout scan_help0" and ?s1.0 = s1 and opts = None
      and target_hmmfile = "''m.hmm''" and query_sequence = "''>s''"
      and r = "exit_with 0 ''hits'' []" and results_file = "Some ''out.txt''" and ?s0.0 = state0
      and e = "IndexError ''list index out of range''", THEN conjunct1, THEN mp, OF this]
  show "fst (run_hmmscan ?w ''m.hmm'' ''>s'' None (Some ''out.txt'') state0)
      = Inl (IndexError ''list index out of range'')"
    by simp
next
  let ?w = "world_model_unreadable (exit_with 0 [] [])"
  have "(if True
        then open_write ?w ''input.fa'' ''>a'' = None \<and>
             execute ?w (launch_count (trace state0))
               (hmmsearch_command (get_config ?w) ''q.hmm'' @ [''input.fa'']) None
               = Inr (exit_with 0 [] [])
        else execute ?w (launch_count (trace state0))
               (hmmsearch_command (get_config ?w) ''q.hmm'' @ [''-'']) (Some ''>a'')
               = Inr (exit_with 0 [] [])) \<and>
      fst (pyhmmsearch ?w ''q.hmm'' ''>a'' True state0) = Inl (OSError ''Permission denied'')"
    by (simp add: world_model_unreadable_def world0_def config0_def execute0_def
        hmmsearch_command_def Let_def pyhmmsearch_def)
  from shadow_failure_reaches_caller [where w = ?w and s = state0
      and query_hmmfile = "''q.hmm''" and target_sequence = "''>a''" and use_tempfile = True
      and r = "exit_with 0 [] []" and ?s0.0 = state0
      and e = "OSError ''Permission denied''", THEN conjunct2, THEN mp, OF this]
  show "fst (run_hmmsearch ?w ''q.hmm'' ''>a'' True state0) = Inr []"
    by simp
next
  let ?w = "world_no_hits (exit_with 0 [] [])"
  have "(if False
        then open_write ?w ''input.fa'' ''>a'' = None \<and>
             execute ?w (launch_count (trace state0))
               (hmmsearch_command (get_config ?w) ''q.hmm'' @ [''input.fa'']) None
               = Inr (exit_with 0 [] [])
        else execute ?w (launch_count (trace state0))
               (hmmsearch_command (get_config ?w) ''q.hmm'' @ [''-'']) (Some ''>a'')
               = Inr (exit_with 0 [] [])) \<and>
      fst (pyhmmsearch ?w ''q.hmm'' ''>a'' False state0)
        = Inl (IndexError ''list index out of range'')"
    by (simp add: world_no_hits_def world0_def config0_def execute0_def
        hmmsearch_command_def Let_def pyhmmsearch_def write_text_def write_hits_def)
  from shadow_failure_reaches_caller [where w = ?w and s = state0
      and query_hmmfile = "''q.hmm''" and target_sequence = "''>a''" and use_tempfile = False
      and r = "exit_with 0 [] []" and ?s0.0 = state0
      and e = "IndexError ''list index out of range''", THEN conjunct2, THEN mp, OF this]
  show "fst (run_hmmsearch ?w ''q.hmm'' ''>a'' False state0)
      = Inl (IndexError ''list index out of range'')"
    by simp
qed

text \<open>
  Claim C1 as stated fails. hmmscan exits with code zero and its output parses, but the
  embedded search finds nothing: \<open>run_hmmscan\<close> raises the IndexError of \<open>hits_list[0]\<close>,
  and the events of the call show no log entry for it. With the same process and the same
  parser, and an embedded search that finds a hit, the call returns the parsed result: the
  outcome is not determined by the subprocess path alone.
\<close>

theorem hmmscan_shadow_failure_propagates:
  "run_hmmscan (world_no_hits (exit_with 0 ''hits'' [])) ''m.hmm'' ''>s'' None None state0 =
     (Inl (IndexError ''list index out of range''),
      \<lparr>help_text = stdout scan_help0,
       trace =
         [Executed [''hmmscan'', ''-h''] None (Inr scan_help0),
          Executed [''hmmscan'', ''--nobias'', ''m.hmm'', ''-''] (Some ''>s'')
            (Inr (exit_with 0 ''hits'' [])),
          Logged ''INFO'' ''hmmscan_time'',
          Wrote ''hmmscan_query.fa'' ''>s'',
          PyhmmerSearch ''hmmscan'']\<rparr>)
   \<and> SearchIO_parse (world_no_hits (exit_with 0 ''hits'' [])) (FromText ''hits'') ''hmmer3-text''
       = Inr [1, 2]
   \<and> fst (run_hmmscan (world0 (exit_with 0 ''hits'' [])) ''m.hmm'' ''>s'' None None state0)
       = Inr [1, 2]"
  by (simp add: run_hmmscan_def run_hmmscan_help_def call_execute_def Let_def world_no_hits_def
      world0_def config0_def execute0_def state0_def startswith_def
      hmmscan_command_def successful_def pyhmmscan_def write_text_def write_hits_def emit_def)
    (simp add: scan_help0_def exit_with_def startswith_def)

section \<open>Empty query text\<close>

text \<open>
  Claim C2, as amended. \<open>run_hmmscan\<close> on an empty query raises the empty-input error
  (a ValueError) and leaves the state as it was: nothing is launched, written or logged, and
  the help probe is not consulted. \<open>run_hmmsearch\<close> has no such check in either branch.
\<close>

theorem run_hmmscan_empty_query:
  "run_hmmscan w target_hmmfile [] opts results_file s =
     (Inl (ValueError ''Cannot run hmmscan on empty sequence''), s)"
  by (simp add: run_hmmscan_def)

text \<open>
  Claim C2 as stated fails for \<open>run_hmmsearch\<close>: with an empty target text it launches
  hmmsearch on the empty standard input and returns what the parser reads.
\<close>

theorem hmmsearch_empty_query_launches:
  "fst (run_hmmsearch (world0 (exit_with 0 [] [])) ''q.hmm'' [] False state0) = Inr [1, 2]
   \<and> trace (snd (run_hmmsearch (world0 (exit_with 0 [] [])) ''q.hmm'' [] False state0)) ! 1 =
       Executed [''hmmsearch'', ''--cpu'', ''4'', ''-o'', ''/dev/null'', ''--domtblout'',
                 ''result.domtab'', ''q.hmm'', ''-''] (Some []) (Inr (exit_with 0 [] []))"
  by (simp add: run_defs world0_simps emit_def str_int_def digits.simps)

section \<open>The error classifier\<close>

lemma error_line_loop_None:
  "error_line_loop output ps = None \<longleftrightarrow> (\<forall>p \<in> set ps. \<not> startswith (snd p) ''Error:'')"
  by (induction ps) (auto split: if_splits)

lemma error_line_loop_first:
  assumes "k < length xs" "startswith (xs ! k) ''Error:''"
    "\<forall>j < k. \<not> startswith (xs ! j) ''Error:''"
  shows "error_line_loop out (enumerate n xs) =
     Some (if n + k + 1 < length out
           then strip (xs ! k) @ '' '' @ strip (out ! (n + k + 1))
           else strip (xs ! k))"
  using assms
proof (induction xs arbitrary: n k)
  case Nil
  then show ?case by simp
next
  case (Cons x xs)
  show ?case
  proof (cases k)
    case 0
    with Cons.prems show ?thesis by simp
  next
    case (Suc k')
    with Cons.prems have nx: "\<not> startswith x ''Error:''" by auto
    have "error_line_loop out (enumerate (Suc n) xs) =
      Some (if Suc n + k' + 1 < length out
            then strip (xs ! k') @ '' '' @ strip (out ! (Suc n + k' + 1))
            else strip (xs ! k'))"
      using Cons.prems Suc by (intro Cons.IH) auto
    with nx Suc show ?thesis by simp
  qed
qed

lemma first_nonempty_loop_None:
  "first_nonempty_loop xs = None \<longleftrightarrow> (\<forall>l \<in> set xs. strip l = [])"
  by (induction xs) (auto simp: Let_def)

lemma first_nonempty_loop_first:
  assumes "k < length xs" "strip (xs ! k) \<noteq> []" "\<forall>j < k. strip (xs ! j) = []"
  shows "first_nonempty_loop xs = Some (strip (xs ! k))"
  using assms
proof (induction xs arbitrary: k)
  case Nil
  then show ?case by simp
next
  case (Cons x xs)
  show ?case
  proof (cases k)
    case 0
    with Cons.prems show ?thesis by (simp add: Let_def)
  next
    case (Suc k')
    with Cons.prems have "strip x = []" by auto
    moreover have "first_nonempty_loop xs = Some (strip (xs ! k'))"
      using Cons.prems Suc by (intro Cons.IH) auto
    ultimately show ?thesis using Suc by (simp add: Let_def)
  qed
qed

text \<open>
  Claim C3, as amended. \<open>find_error\<close> is a total function of the list, and
  \<^item> if line \<open>i\<close> is the first that begins with \<open>Error:\<close> (read before trimming), the result
    is that line trimmed, one space, and the following line trimmed when there is a
    following line, and that line trimmed otherwise;
  \<^item> if no line begins with \<open>Error:\<close> and line \<open>i\<close> is the first that is not empty after
    trimming, the result is that line trimmed;
  \<^item> if no line begins with \<open>Error:\<close> and every line is empty after trimming (the empty
    list included), the result is \<open>unknown error\<close>.
\<close>

theorem find_error_cases:
  "(\<forall>i < length output.
      startswith (output ! i) ''Error:'' \<and> (\<forall>j < i. \<not> startswith (output ! j) ''Error:'') \<longrightarrow>
      find_error output =
        (if i + 1 < length output then strip (output ! i) @ '' '' @ strip (output ! (i + 1))
         else strip (output ! i)))
   \<and> ((\<forall>l \<in> set output. \<not> startswith l ''Error:'') \<longrightarrow>
        (\<forall>i < length output.
           strip (output ! i) \<noteq> [] \<and> (\<forall>j < i. strip (output ! j) = []) \<longrightarrow>
           find_error output = strip (output ! i)))
   \<and> ((\<forall>l \<in> set output. \<not> startswith l ''Error:'' \<and> strip l = []) \<longrightarrow>
        find_error output = ''unknown error'')"
proof (intro conjI allI impI)
  fix i
  assume "i < length output"
    and "startswith (output ! i) ''Error:'' \<and> (\<forall>j < i. \<not> startswith (output ! j) ''Error:'')"
  then show "find_error output =
        (if i + 1 < length output then strip (output ! i) @ '' '' @ strip (output ! (i + 1))
         else strip (output ! i))"
    using error_line_loop_first [where k = i and xs = "output" and out = "output" and n = 0]
    by (simp add: find_error_def)
next
  fix i
  assume no: "\<forall>l \<in> set output. \<not> startswith l ''Error:''"
    and "i < length output"
    and "strip (output ! i) \<noteq> [] \<and> (\<forall>j < i. strip (output ! j) = [])"
  moreover have "error_line_loop output (enumerate 0 output) = None"
    using no by (auto simp: error_line_loop_None in_set_enumerate_eq)
  ultimately show "find_error output = strip (output ! i)"
    using first_nonempty_loop_first [where k = i and xs = "output"]
    by (simp add: find_error_def)
next
  assume a: "\<forall>l \<in> set output. \<not> startswith l ''Error:'' \<and> strip l = []"
  have "error_line_loop output (enumerate 0 output) = None"
    using a by (auto simp: error_line_loop_None in_set_enumerate_eq)
  moreover have "first_nonempty_loop output = None"
    using a by (simp add: first_nonempty_loop_None)
  ultimately show "find_error output = ''unknown error''"
    by (simp add: find_error_def)
qed

lemma strip_examples:
  "strip ''Error: file not found'' = ''Error: file not found''"
  "strip ''  models/test.hmm'' = ''models/test.hmm''"
  "strip ''hmmscan: '' = ''hmmscan:''"
  "strip '' usage  '' = ''usage''"
  "strip ''  '' = []"
  "strip [] = []"
  "strip ''Error: out of memory '' = ''Error: out of memory''"
  by (simp_all add: strip_def isspace_def)

theorem find_error_cases_witness:
  "find_error [''hmmscan: '', ''Error: file not found'', ''  models/test.hmm''] =
     ''Error: file not found models/test.hmm''
   \<and> find_error [''hmmscan: '', ''Error: out of memory ''] = ''Error: out of memory''
   \<and> find_error [''  '', '' usage  '', ''hmmscan: ''] = ''usage''
   \<and> find_error [''  '', []] = ''unknown error''
   \<and> find_error [] = ''unknown error''"
proof (intro conjI)
  show "find_error [''hmmscan: '', ''Error: file not found'', ''  models/test.hmm''] =
     ''Error: file not found models/test.hmm''"
    using find_error_cases [of "[''hmmscan: '', ''Error: file not found'', ''  models/test.hmm'']",
        THEN conjunct1, rule_format, of 1]
    by (simp add: startswith_def strip_examples)
  show "find_error [''hmmscan: '', ''Error: out of memory ''] = ''Error: out of memory''"
    using find_error_cases [of "[''hmmscan: '', ''Error: out of memory '']",
        THEN conjunct1, rule_format, of 1]
    by (simp add: startswith_def strip_examples)
  have no_error: "\<forall>l \<in> set [''  '', '' usage  '', ''hmmscan: '']. \<not> startswith l ''Error:''"
    by (simp add: startswith_def)
  show "find_error [''  '', '' usage  '', ''hmmscan: ''] = ''usage''"
    using find_error_cases [of "[''  '', '' usage  '', ''hmmscan: '']",
        THEN conjunct2, THEN conjunct1, THEN mp, OF no_error, THEN spec, of 1]
    by (simp add: strip_examples)
  have blank: "\<forall>l \<in> set [''  '', []]. \<not> startswith l ''Error:'' \<and> strip l = []"
    by (simp add: startswith_def strip_examples)
  show "find_error [''  '', []] = ''unknown error''"
    using find_error_cases [of "[''  '', []]", THEN conjunct2, THEN conjunct2, THEN mp, OF blank] .
  have none: "\<forall>l \<in> set ([] :: string list). \<not> startswith l ''Error:'' \<and> strip l = []"
    by simp
  show "find_error [] = ''unknown error''"
    using find_error_cases [of "[]", THEN conjunct2, THEN conjunct2, THEN mp, OF none] .
qed

text \<open>
  Claim C3 as stated fails where it says that the line is concatenated with the following
  line: both lines are trimmed and joined by one space. On the two lines of the spec's own
  scenario the result is neither the two lines put together nor the text the scenario
  expects (which keeps the indentation of the second line).
\<close>

theorem find_error_not_concatenation:
  "find_error [''Error: file not found'', ''  models/test.hmm''] =
     ''Error: file not found models/test.hmm''
   \<and> find_error [''Error: file not found'', ''  models/test.hmm''] \<noteq>
     ''Error: file not found'' @ ''  models/test.hmm''
   \<and> find_error [''Error: file not found'', ''  models/test.hmm''] \<noteq>
     ''Error: file not found   models/test.hmm''"
  by (simp add: find_error_def startswith_def strip_examples)

section \<open>What the error of a failed run carries\<close>

text \<open>
  Claim C4, as amended. When hmmscan exits with a nonzero code, \<open>run_hmmscan\<close> raises a
  RuntimeError whose message is made of the exit code, the line that \<open>find_error\<close> picks
  from the lines of stderr (of stdout when stderr is empty), and the \<open>repr\<close> of the first
  100 characters of the query. When hmmsearch exits with a nonzero code and the \<open>try\<close>
  block has completed, \<open>run_hmmsearch\<close> raises a RuntimeError with a fixed message; the
  exit code, stderr and the model path go to the error log only.
\<close>

theorem nonzero_exit_error:
  "(query_sequence \<noteq> [] \<and> run_hmmscan_help w s = (Inr probe_text, s1) \<and>
    execute w (launch_count (trace s1))
      (hmmscan_command (get_config w) probe_text opts target_hmmfile) (Some query_sequence) = Inr r \<and>
    return_code r \<noteq> 0 \<longrightarrow>
      fst (run_hmmscan w target_hmmfile query_sequence opts results_file s) =
        Inl (RuntimeError
          (''hmmscan returned '' @ str_int (return_code r) @ '': '' @ [CHR 0x27]
           @ find_error (splitlines (if stderr r \<noteq> [] then stderr r else stdout r))
           @ [CHR 0x27] @ '' while scanning '' @ repr (take 100 query_sequence) @ ''...''))
      \<and> length (take 100 query_sequence) \<le> 100)
   \<and> (hmmsearch_attempt w query_hmmfile target_sequence use_tempfile
        (hmmsearch_command (get_config w) query_hmmfile) (emit EnteredTempDir s) = (Inr r, s2) \<and>
      return_code r \<noteq> 0 \<longrightarrow>
        run_hmmsearch w query_hmmfile target_sequence use_tempfile s =
          (Inl (RuntimeError ''Running hmmsearch failed.''),
           emit LeftTempDir (emit (Logged ''ERROR''
             (''hmmsearch returned '' @ str_int (return_code r) @ '': '' @ stderr r
              @ '' while searching '' @ query_hmmfile)) s2)))"
  by (simp add: run_hmmscan_def run_hmmsearch_def call_execute_def Let_def successful_def
      hmmscan_failure_def hmmsearch_failure_log_def)

lemma failed_scan_diagnostic:
  "find_error (splitlines (stderr failed_scan)) = ''Error: file not found models/test.hmm''"
  by (simp add: failed_scan_def exit_with_def splitlines_def is_linebreak_def find_error_def
      startswith_def strip_def isspace_def)

lemma repr_seq1: "repr ''>seq1'' = [CHR 0x27] @ ''>seq1'' @ [CHR 0x27]"
  by (simp add: repr_def repr_char_def isprintable_def Let_def)

lemma str_int_1: "str_int 1 = ''1''"
  by (simp add: str_int_def digits.simps)

theorem nonzero_exit_error_witness:
  "fst (run_hmmscan (world0 failed_scan) ''models/test.hmm'' ''>seq1'' None None state0) =
     Inl (RuntimeError
       (''hmmscan returned 1: '' @ [CHR 0x27] @ ''Error: file not found models/test.hmm''
        @ [CHR 0x27] @ '' while scanning '' @ [CHR 0x27] @ ''>seq1'' @ [CHR 0x27] @ ''...''))
   \<and> run_hmmsearch (world0 failed_scan) ''models/test.hmm'' ''>seq1'' False state0 =
       (Inl (RuntimeError ''Running hmmsearch failed.''),
        \<lparr>help_text = [],
         trace =
           [EnteredTempDir,
            Executed [''hmmsearch'', ''--cpu'', ''4'', ''-o'', ''/dev/null'', ''--domtblout'',
                      ''result.domtab'', ''models/test.hmm'', ''-''] (Some ''>seq1'')
              (Inr failed_scan),
            Logged ''INFO'' ''hmmsearch_time_2'',
            Wrote ''input_stdin_pyhmmer.fa'' ''>seq1'',
            PyhmmerSearch ''hmmsearch'',
            Logged ''INFO'' ''pyhmmsearch_time_2'',
            Logged ''ERROR''
              (''hmmsearch returned 1: '' @ stderr failed_scan
               @ '' while searching models/test.hmm''),
            LeftTempDir]\<rparr>)"
proof
  define s1 where "s1 = (emit (Executed [''hmmscan'', ''-h''] None (Inr scan_help0)) state0)
                          \<lparr>help_text := stdout scan_help0\<rparr>"
  have probe: "run_hmmscan_help (world0 failed_scan) state0 = (Inr (stdout scan_help0), s1)"
    by (simp add: run_hmmscan_help_def call_execute_def Let_def world0_def config0_def
        execute0_def state0_def s1_def startswith_def scan_help0_def)
  have run: "execute (world0 failed_scan) (launch_count (trace s1))
      (hmmscan_command (get_config (world0 failed_scan)) (stdout scan_help0) None
         ''models/test.hmm'') (Some ''>seq1'') = Inr failed_scan"
    by (simp add: world0_def config0_def execute0_def hmmscan_command_def Let_def)
  have code: "return_code failed_scan \<noteq> 0" "stderr failed_scan \<noteq> []"
    by (simp_all add: failed_scan_def exit_with_def)
  show "fst (run_hmmscan (world0 failed_scan) ''models/test.hmm'' ''>seq1'' None None state0) =
     Inl (RuntimeError
       (''hmmscan returned 1: '' @ [CHR 0x27] @ ''Error: file not found models/test.hmm''
        @ [CHR 0x27] @ '' while scanning '' @ [CHR 0x27] @ ''>seq1'' @ [CHR 0x27] @ ''...''))"
    using nonzero_exit_error [where query_sequence = "''>seq1''" and w = "world0 failed_scan"
        and s = state0 and probe_text = "stdout scan_help0" and ?s1.0 = s1 and opts = None
        and target_hmmfile = "''models/test.hmm''" and r = failed_scan
        and results_file = None, THEN conjunct1] probe run code
    by (simp add: failed_scan_diagnostic repr_seq1)
      (simp add: failed_scan_def exit_with_def str_int_1)
next
  define s2 where "s2 = \<lparr>help_text = [],
         trace =
           [EnteredTempDir,
            Executed [''hmmsearch'', ''--cpu'', ''4'', ''-o'', ''/dev/null'', ''--domtblout'',
                      ''result.domtab'', ''models/test.hmm'', ''-''] (Some ''>seq1'')
              (Inr failed_scan),
            Logged ''INFO'' ''hmmsearch_time_2'',
            Wrote ''input_stdin_pyhmmer.fa'' ''>seq1'',
            PyhmmerSearch ''hmmsearch'',
            Logged ''INFO'' ''pyhmmsearch_time_2'']\<rparr>"
  have attempt: "hmmsearch_attempt (world0 failed_scan) ''models/test.hmm'' ''>seq1'' False
        (hmmsearch_command (get_config (world0 failed_scan)) ''models/test.hmm'')
        (emit EnteredTempDir state0) = (Inr failed_scan, s2)"
    by (simp add: run_defs world0_simps emit_def s2_def str_int_def digits.simps)
  have code: "return_code failed_scan \<noteq> 0"
    by (simp add: failed_scan_def exit_with_def)
  show "run_hmmsearch (world0 failed_scan) ''models/test.hmm'' ''>seq1'' False state0 =
       (Inl (RuntimeError ''Running hmmsearch failed.''),
        \<lparr>help_text = [],
         trace =
           [EnteredTempDir,
            Executed [''hmmsearch'', ''--cpu'', ''4'', ''-o'', ''/dev/null'', ''--domtblout'',
                      ''result.domtab'', ''models/test.hmm'', ''-''] (Some ''>seq1'')
              (Inr failed_scan),
            Logged ''INFO'' ''hmmsearch_time_2'',
            Wrote ''input_stdin_pyhmmer.fa'' ''>seq1'',
            PyhmmerSearch ''hmmsearch'',
            Logged ''INFO'' ''pyhmmsearch_time_2'',
            Logged ''ERROR''
              (''hmmsearch returned 1: '' @ stderr failed_scan
               @ '' while searching models/test.hmm''),
            LeftTempDir]\<rparr>)"
    using nonzero_exit_error [where w = "world0 failed_scan" and r = failed_scan
        and query_hmmfile = "''models/test.hmm''" and target_sequence = "''>seq1''"
        and use_tempfile = False and s = state0 and ?s2.0 = s2, THEN conjunct2] attempt code
    by (simp add: emit_def s2_def)
      (simp add: failed_scan_def exit_with_def str_int_1)
qed

text \<open>
  Claim C4 as stated fails for \<open>run_hmmsearch\<close>: runs that differ in exit code, in
  diagnostic and in query text raise the same error.
\<close>

theorem hmmsearch_error_is_fixed:
  "fst (run_hmmsearch (world0 (exit_with 1 [] ''Error: bad model'')) ''q.hmm'' ''>a'' False state0) =
     Inl (RuntimeError ''Running hmmsearch failed.'')
   \<and> fst (run_hmmsearch (world0 (exit_with 2 ''Segmentation fault'' [])) ''q.hmm'' ''>b'' False state0) =
     Inl (RuntimeError ''Running hmmsearch failed.'')"
  by (simp add: run_defs world0_simps emit_def)

section \<open>The thread-count flag\<close>

text \<open>
  Claim C5, as amended. In \<open>run_hmmscan\<close>, when the help text of the probe lacks the token
  \<open>--cpu\<close> between spaces, the command is the executable, \<open>--nobias\<close>, the caller's extra
  options, the model path and \<open>-\<close>: the thread-count flag and the worker count that the
  builder puts in are dropped, whatever the worker count, and the flag is in the command
  only if the caller's own arguments contain it. \<open>run_hmmsearch\<close> does not look at the
  probe: it drops the flag and the count exactly when the configuration has a \<open>hmmer3\<close>
  section whose \<open>multithreading\<close> entry is false.
\<close>

theorem hmmscan_command_without_cpu:
  "(\<not> str_contains '' --cpu '' probe_text \<longrightarrow>
      hmmscan_command config probe_text opts target_hmmfile =
        [executables_hmmscan config, ''--nobias'']
        @ (case opts of None \<Rightarrow> [] | Some extra \<Rightarrow> extra) @ [target_hmmfile, ''-'']
      \<and> (''--cpu'' \<in> set (hmmscan_command config probe_text opts target_hmmfile) \<longleftrightarrow>
           executables_hmmscan config = ''--cpu'' \<or> target_hmmfile = ''--cpu''
           \<or> ''--cpu'' \<in> set (case opts of None \<Rightarrow> [] | Some extra \<Rightarrow> extra)))
   \<and> hmmsearch_command config query_hmmfile =
        (if hmmer3 config = Some (Some False)
         then [executables_hmmsearch config, ''-o'', ''/dev/null'', ''--domtblout'',
               ''result.domtab'', query_hmmfile]
         else [executables_hmmsearch config, ''--cpu'', str_int (cpus config), ''-o'',
               ''/dev/null'', ''--domtblout'', ''result.domtab'', query_hmmfile])"
  by (auto simp: hmmscan_command_def hmmsearch_command_def devnull_def Let_def
      split: option.splits)

lemma scan_help0_lacks_cpu: "\<not> str_contains '' --cpu '' (stdout scan_help0)"
  by (simp add: scan_help0_def startswith_def)

theorem hmmscan_command_without_cpu_witness:
  "\<not> str_contains '' --cpu '' (stdout scan_help0)
   \<and> hmmscan_command config0 (stdout scan_help0) (Some [''-E'', ''0.01'']) ''models/test.hmm'' =
       [''hmmscan'', ''--nobias'', ''-E'', ''0.01'', ''models/test.hmm'', ''-'']
   \<and> ''--cpu'' \<notin> set (hmmscan_command config0 (stdout scan_help0) (Some [''-E'', ''0.01''])
                          ''models/test.hmm'')"
  using hmmscan_command_without_cpu [where probe_text = "stdout scan_help0" and config = config0
      and opts = "Some [''-E'', ''0.01'']" and target_hmmfile = "''models/test.hmm''"]
    scan_help0_lacks_cpu
  by (simp add: config0_def)

text \<open>
  Claim C5 as stated fails for \<open>run_hmmsearch\<close>: in an environment where the help text of
  both tools lacks the token, the command that is launched has the flag and the count.
\<close>

theorem hmmsearch_keeps_cpu_flag:
  "\<not> str_contains '' --cpu '' (stdout search_help0)
   \<and> trace (snd (run_hmmsearch (world0 (exit_with 0 [] [])) ''q.hmm'' ''>a'' True state0)) ! 2 =
       Executed [''hmmsearch'', ''--cpu'', ''4'', ''-o'', ''/dev/null'', ''--domtblout'',
                 ''result.domtab'', ''q.hmm'', ''input.fa''] None (Inr (exit_with 0 [] []))"
  by (simp add: run_defs world0_simps emit_def str_int_def digits.simps)

section \<open>Probing the tools\<close>

lemma repeat_cached:
  "help_text s \<noteq> [] \<Longrightarrow>
     repeat_call (run_hmmscan_help w) n s = (replicate n (Inr (help_text s)), s)"
  by (induction n) (simp_all add: run_hmmscan_help_def)

lemma snd_repeat_call_Suc: "snd (repeat_call f (Suc n) s) = snd (repeat_call f n (snd (f s)))"
  by (simp split: prod.splits)

lemma search_version_one_launch:
  "launch_count (trace (snd (run_hmmsearch_version w s))) = launch_count (trace s) + 1"
  by (simp add: run_hmmsearch_version_def call_execute_def Let_def and_then_def
      split: sum.splits)

lemma repeat_search_version_launches:
  "launch_count (trace (snd (repeat_call (run_hmmsearch_version w) n s))) =
     launch_count (trace s) + n"
proof (induction n arbitrary: s)
  case 0
  then show ?case by simp
next
  case (Suc n)
  show ?case
    unfolding snd_repeat_call_Suc
    by (simp add: Suc [of "snd (run_hmmsearch_version w s)"] search_version_one_launch)
qed

text \<open>
  Claim C6, as amended. For \<open>run_hmmscan_help\<close>: when nothing is cached and the first
  probe comes back with the banner, any number of calls (at least one) launch one process
  in all and every call returns the same help text; when a help text is cached already,
  the calls launch nothing and return it. \<open>run_hmmsearch_version\<close> keeps no cache: \<open>n\<close>
  calls launch \<open>n\<close> processes. (A probe without the banner is not cached either, which is
  claim C7.)
\<close>

theorem probe_repeated:
  "(help_text s = [] \<and>
    execute w (launch_count (trace s)) [executables_hmmscan (get_config w), ''-h''] None = Inr r \<and>
    startswith (stdout r) ''# hmmscan'' \<longrightarrow>
      fst (repeat_call (run_hmmscan_help w) (Suc n) s) = replicate (Suc n) (Inr (stdout r)) \<and>
      launch_count (trace (snd (repeat_call (run_hmmscan_help w) (Suc n) s))) =
        launch_count (trace s) + 1)
   \<and> (help_text s \<noteq> [] \<longrightarrow>
        repeat_call (run_hmmscan_help w) n s = (replicate n (Inr (help_text s)), s))
   \<and> launch_count (trace (snd (repeat_call (run_hmmsearch_version w) n s))) =
        launch_count (trace s) + n"
proof (intro conjI impI)
  assume a: "help_text s = [] \<and>
    execute w (launch_count (trace s)) [executables_hmmscan (get_config w), ''-h''] None = Inr r \<and>
    startswith (stdout r) ''# hmmscan''"
  define s' where
    "s' = (emit (Executed [executables_hmmscan (get_config w), ''-h''] None (Inr r)) s)
            \<lparr>help_text := stdout r\<rparr>"
  from a have ne: "stdout r \<noteq> []"
    by (auto simp: startswith_def)
  from a have first: "run_hmmscan_help w s = (Inr (stdout r), s')"
    by (simp add: run_hmmscan_help_def call_execute_def Let_def s'_def)
  have rest: "repeat_call (run_hmmscan_help w) n s' = (replicate n (Inr (stdout r)), s')"
    using repeat_cached [of s' w n] ne by (simp add: s'_def)
  show "fst (repeat_call (run_hmmscan_help w) (Suc n) s) = replicate (Suc n) (Inr (stdout r))"
    using first rest by simp
  show "launch_count (trace (snd (repeat_call (run_hmmscan_help w) (Suc n) s))) =
        launch_count (trace s) + 1"
    using first rest by (simp add: s'_def)
next
  assume "help_text s \<noteq> []"
  then show "repeat_call (run_hmmscan_help w) n s = (replicate n (Inr (help_text s)), s)"
    by (rule repeat_cached)
next
  show "launch_count (trace (snd (repeat_call (run_hmmsearch_version w) n s))) =
        launch_count (trace s) + n"
    by (rule repeat_search_version_launches)
qed

theorem probe_repeated_witness:
  "fst (repeat_call (run_hmmscan_help (world0 (exit_with 0 [] []))) (Suc 2) state0) =
     replicate (Suc 2) (Inr (stdout scan_help0))
   \<and> launch_count (trace (snd (repeat_call (run_hmmscan_help (world0 (exit_with 0 [] [])))
        (Suc 2) state0))) = 1
   \<and> repeat_call (run_hmmscan_help (world0 (exit_with 0 [] []))) 2
        (state0\<lparr>help_text := ''# hmmscan''\<rparr>) =
       (replicate 2 (Inr ''# hmmscan''), state0\<lparr>help_text := ''# hmmscan''\<rparr>)"
proof -
  have probe: "help_text state0 = [] \<and>
      execute (world0 (exit_with 0 [] [])) (launch_count (trace state0))
        [executables_hmmscan (get_config (world0 (exit_with 0 [] []))), ''-h''] None
        = Inr scan_help0 \<and>
      startswith (stdout scan_help0) ''# hmmscan''"
    by (simp add: world0_simps startswith_def)
  have cached: "help_text (state0\<lparr>help_text := ''# hmmscan''\<rparr>) \<noteq> []"
    by simp
  have fresh: "launch_count (trace state0) = 0"
    by (simp add: state0_def)
  note first = probe_repeated [where w = "world0 (exit_with 0 [] [])" and s = state0
      and r = scan_help0 and n = 2, THEN conjunct1, THEN mp, OF probe]
  note later = probe_repeated [where w = "world0 (exit_with 0 [] [])"
      and s = "state0\<lparr>help_text := ''# hmmscan''\<rparr>" and n = 2,
      THEN conjunct2, THEN conjunct1, THEN mp, OF cached]
  have a: "fst (repeat_call (run_hmmscan_help (world0 (exit_with 0 [] []))) (Suc 2) state0) =
     replicate (Suc 2) (Inr (stdout scan_help0))"
    by (rule first [THEN conjunct1])
  have b: "launch_count (trace (snd (repeat_call (run_hmmscan_help (world0 (exit_with 0 [] [])))
        (Suc 2) state0))) = 1"
    unfolding first [THEN conjunct2] fresh by simp
  have c: "repeat_call (run_hmmscan_help (world0 (exit_with 0 [] []))) 2
        (state0\<lparr>help_text := ''# hmmscan''\<rparr>) =
       (replicate 2 (Inr ''# hmmscan''), state0\<lparr>help_text := ''# hmmscan''\<rparr>)"
    unfolding later by simp
  show ?thesis
    by (intro conjI a b c)
qed

text \<open>
  Claim C6 as stated fails: two calls of \<open>run_hmmsearch_version\<close> launch hmmsearch twice,
  and so do two calls of \<open>run_hmmscan_help\<close> when the executable answers without the
  banner.
\<close>

theorem search_version_probes_each_time:
  "launch_count (trace (snd (repeat_call (run_hmmsearch_version (world0 (exit_with 0 [] []))) 2
      state0))) = 2
   \<and> launch_count (trace (snd (repeat_call (run_hmmscan_help world_no_banner) 2 state0))) = 2"
  by (simp add: numeral_2_eq_2 run_defs world0_simps emit_def world_no_banner_def no_banner_def)

text \<open>
  Claim C7. When the probe's process comes back with an output that does not begin with
  the banner, \<open>run_hmmscan_help\<close> (called with nothing cached, so that it does launch the
  process) and \<open>run_hmmsearch_version\<close> raise a RuntimeError that names the executable.
  The only change of state is the launch in the trace: the cached help text is as before,
  and the next call launches the process again.
\<close>

theorem probe_bad_banner_not_cached:
  "(help_text s = [] \<and>
    execute w (launch_count (trace s)) [executables_hmmscan (get_config w), ''-h''] None = Inr r \<and>
    \<not> startswith (stdout r) ''# hmmscan'' \<longrightarrow>
      run_hmmscan_help w s =
        (Inl (RuntimeError (''unexpected output from hmmscan: ''
                @ executables_hmmscan (get_config w) @ '', check path'')),
         emit (Executed [executables_hmmscan (get_config w), ''-h''] None (Inr r)) s) \<and>
      help_text (snd (run_hmmscan_help w s)) = help_text s \<and>
      launch_count (trace (snd (run_hmmscan_help w (snd (run_hmmscan_help w s))))) =
        launch_count (trace s) + 2)
   \<and> (execute w (launch_count (trace s)) [executables_hmmsearch (get_config w), ''-h''] None = Inr r \<and>
      \<not> startswith (stdout r) ''# hmmsearch'' \<longrightarrow>
      run_hmmsearch_version w s =
        (Inl (RuntimeError (''unexpected output from hmmsearch: ''
                @ executables_hmmsearch (get_config w) @ '', check path'')),
         emit (Executed [executables_hmmsearch (get_config w), ''-h''] None (Inr r)) s) \<and>
      help_text (snd (run_hmmsearch_version w s)) = help_text s \<and>
      launch_count (trace (snd (run_hmmsearch_version w (snd (run_hmmsearch_version w s))))) =
        launch_count (trace s) + 2)"
proof (intro conjI impI)
  assume a: "help_text s = [] \<and>
    execute w (launch_count (trace s)) [executables_hmmscan (get_config w), ''-h''] None = Inr r \<and>
    \<not> startswith (stdout r) ''# hmmscan''"
  then have first: "run_hmmscan_help w s =
        (Inl (RuntimeError (''unexpected output from hmmscan: ''
                @ executables_hmmscan (get_config w) @ '', check path'')),
         emit (Executed [executables_hmmscan (get_config w), ''-h''] None (Inr r)) s)"
    by (simp add: run_hmmscan_help_def call_execute_def Let_def)
  then show "run_hmmscan_help w s =
        (Inl (RuntimeError (''unexpected output from hmmscan: ''
                @ executables_hmmscan (get_config w) @ '', check path'')),
         emit (Executed [executables_hmmscan (get_config w), ''-h''] None (Inr r)) s)" .
  from first show "help_text (snd (run_hmmscan_help w s)) = help_text s"
    by simp
  from first a
  show "launch_count (trace (snd (run_hmmscan_help w (snd (run_hmmscan_help w s))))) =
        launch_count (trace s) + 2"
    by (simp add: run_hmmscan_help_def call_execute_def Let_def and_then_def
        split: sum.splits)
next
  assume a: "execute w (launch_count (trace s)) [executables_hmmsearch (get_config w), ''-h''] None
      = Inr r \<and> \<not> startswith (stdout r) ''# hmmsearch''"
  then have first: "run_hmmsearch_version w s =
        (Inl (RuntimeError (''unexpected output from hmmsearch: ''
                @ executables_hmmsearch (get_config w) @ '', check path'')),
         emit (Executed [executables_hmmsearch (get_config w), ''-h''] None (Inr r)) s)"
    by (simp add: run_hmmsearch_version_def call_execute_def Let_def)
  then show "run_hmmsearch_version w s =
        (Inl (RuntimeError (''unexpected output from hmmsearch: ''
                @ executables_hmmsearch (get_config w) @ '', check path'')),
         emit (Executed [executables_hmmsearch (get_config w), ''-h''] None (Inr r)) s)" .
  from first show "help_text (snd (run_hmmsearch_version w s)) = help_text s"
    by simp
  show "launch_count (trace (snd (run_hmmsearch_version w (snd (run_hmmsearch_version w s))))) =
        launch_count (trace s) + 2"
    by (simp add: search_version_one_launch)
qed

theorem probe_bad_banner_not_cached_witness:
  "run_hmmscan_help world_no_banner state0 =
     (Inl (RuntimeError ''unexpected output from hmmscan: hmmscan, check path''),
      \<lparr>help_text = [], trace = [Executed [''hmmscan'', ''-h''] None (Inr no_banner)]\<rparr>)
   \<and> launch_count (trace (snd (run_hmmscan_help world_no_banner
        (snd (run_hmmscan_help world_no_banner state0))))) = 2
   \<and> run_hmmsearch_version world_no_banner state0 =
     (Inl (RuntimeError ''unexpected output from hmmsearch: hmmsearch, check path''),
      \<lparr>help_text = [], trace = [Executed [''hmmsearch'', ''-h''] None (Inr no_banner)]\<rparr>)"
proof -
  have scan: "help_text state0 = [] \<and>
      execute world_no_banner (launch_count (trace state0))
        [executables_hmmscan (get_config world_no_banner), ''-h''] None = Inr no_banner \<and>
      \<not> startswith (stdout no_banner) ''# hmmscan''"
    by (simp add: world_no_banner_def no_banner_def world0_simps startswith_def)
  have search:
    "execute world_no_banner (launch_count (trace state0))
        [executables_hmmsearch (get_config world_no_banner), ''-h''] None = Inr no_banner \<and>
      \<not> startswith (stdout no_banner) ''# hmmsearch''"
    by (simp add: world_no_banner_def no_banner_def world0_simps startswith_def)
  have paths: "executables_hmmscan (get_config world_no_banner) = ''hmmscan''"
    "executables_hmmsearch (get_config world_no_banner) = ''hmmsearch''"
    by (simp_all add: world_no_banner_def world0_def config0_def)
  note scan_facts = probe_bad_banner_not_cached [where w = world_no_banner and s = state0
      and r = no_banner, THEN conjunct1, THEN mp, OF scan]
  note search_facts = probe_bad_banner_not_cached [where w = world_no_banner and s = state0
      and r = no_banner, THEN conjunct2, THEN mp, OF search]
  have a: "run_hmmscan_help world_no_banner state0 =
     (Inl (RuntimeError ''unexpected output from hmmscan: hmmscan, check path''),
      \<lparr>help_text = [], trace = [Executed [''hmmscan'', ''-h''] None (Inr no_banner)]\<rparr>)"
    using scan_facts [THEN conjunct1] by (simp add: paths emit_def state0_def)
  have b: "launch_count (trace (snd (run_hmmscan_help world_no_banner
        (snd (run_hmmscan_help world_no_banner state0))))) = 2"
    using scan_facts [THEN conjunct2, THEN conjunct2] by (simp add: state0_def)
  have c: "run_hmmsearch_version world_no_banner state0 =
     (Inl (RuntimeError ''unexpected output from hmmsearch: hmmsearch, check path''),
      \<lparr>help_text = [], trace = [Executed [''hmmsearch'', ''-h''] None (Inr no_banner)]\<rparr>)"
    using search_facts [THEN conjunct1] by (simp add: paths emit_def state0_def)
  show ?thesis
    by (intro conjI a b c)
qed

section \<open>What the call returns\<close>

text \<open>
  Claim C8, as amended. When the process has exited with code zero and the rest of the
  call raises nothing (the optional results file is written and the embedded path
  completes), the outcome of the call is exactly what the parser gives: for \<open>run_hmmscan\<close>
  on the captured stdout in the format \<open>hmmer3-text\<close>, for \<open>run_hmmsearch\<close> on the file
  \<open>result.domtab\<close> that the tool wrote, in the format \<open>hmmsearch3-domtab\<close>. Conversely,
  every collection that \<open>run_hmmscan\<close> returns is the parser's result for the stdout of a
  run that exited with code zero, and every collection that \<open>run_hmmsearch\<close> returns is
  either the parser's result after such a run or the empty list of the OSError handler.
  Nothing is filtered, dropped or reordered in between.
\<close>

theorem returned_hits_are_parsed:
  "(query_sequence \<noteq> [] \<and> run_hmmscan_help w s = (Inr probe_text, s1) \<and>
    execute w (launch_count (trace s1))
      (hmmscan_command (get_config w) probe_text opts target_hmmfile) (Some query_sequence) = Inr r \<and>
    return_code r = 0 \<and>
    (\<forall>path. results_file = Some path \<longrightarrow> open_write w path (stdout r) = None) \<and>
    fst (pyhmmscan w target_hmmfile query_sequence s0) = Inr () \<longrightarrow>
      fst (run_hmmscan w target_hmmfile query_sequence opts results_file s) =
        SearchIO_parse w (FromText (stdout r)) ''hmmer3-text'')
   \<and> ((if use_tempfile
        then open_write w ''input.fa'' target_sequence = None \<and>
             execute w (launch_count (trace s))
               (hmmsearch_command (get_config w) query_hmmfile @ [''input.fa'']) None = Inr r
        else execute w (launch_count (trace s))
               (hmmsearch_command (get_config w) query_hmmfile @ [''-''])
               (Some target_sequence) = Inr r) \<and>
      return_code r = 0 \<and>
      fst (pyhmmsearch w query_hmmfile target_sequence use_tempfile s0) = Inr () \<longrightarrow>
        fst (run_hmmsearch w query_hmmfile target_sequence use_tempfile s) =
          SearchIO_parse w (FromFile ''result.domtab'') ''hmmsearch3-domtab'')
   \<and> (fst (run_hmmscan w target_hmmfile query_sequence opts results_file s) = Inr v \<longrightarrow>
        (\<exists>h s' r'. run_hmmscan_help w s = (Inr h, s') \<and>
           execute w (launch_count (trace s'))
             (hmmscan_command (get_config w) h opts target_hmmfile) (Some query_sequence) = Inr r' \<and>
           return_code r' = 0 \<and>
           SearchIO_parse w (FromText (stdout r')) ''hmmer3-text'' = Inr v))
   \<and> (fst (run_hmmsearch w query_hmmfile target_sequence use_tempfile s) = Inr v \<longrightarrow>
        (v = [] \<and>
         (\<exists>msg. fst (hmmsearch_attempt w query_hmmfile target_sequence use_tempfile
                   (hmmsearch_command (get_config w) query_hmmfile) (emit EnteredTempDir s))
                 = Inl (OSError msg)))
        \<or> (\<exists>r'. fst (hmmsearch_attempt w query_hmmfile target_sequence use_tempfile
                   (hmmsearch_command (get_config w) query_hmmfile) (emit EnteredTempDir s))
                 = Inr r' \<and>
              return_code r' = 0 \<and>
              SearchIO_parse w (FromFile ''result.domtab'') ''hmmsearch3-domtab'' = Inr v))"
proof (intro conjI impI)
  assume a: "query_sequence \<noteq> [] \<and> run_hmmscan_help w s = (Inr probe_text, s1) \<and>
    execute w (launch_count (trace s1))
      (hmmscan_command (get_config w) probe_text opts target_hmmfile) (Some query_sequence) = Inr r \<and>
    return_code r = 0 \<and>
    (\<forall>path. results_file = Some path \<longrightarrow> open_write w path (stdout r) = None) \<and>
    fst (pyhmmscan w target_hmmfile query_sequence s0) = Inr ()"
  define s2 where "s2 = emit (Logged ''INFO'' ''hmmscan_time'')
      (emit (Executed (hmmscan_command (get_config w) probe_text opts target_hmmfile)
              (Some query_sequence) (Inr r)) s1)"
  define s3 where "s3 = (case results_file of None \<Rightarrow> s2
                         | Some path \<Rightarrow> emit (Wrote path (stdout r)) s2)"
  have keep: "(case results_file of None \<Rightarrow> (Inr (), s2)
               | Some path \<Rightarrow> write_text w path (stdout r) s2) = (Inr (), s3)"
    using a by (cases results_file) (simp_all add: s3_def write_text_def)
  obtain pr s4 where py: "pyhmmscan w target_hmmfile query_sequence s3 = (pr, s4)"
    by (cases "pyhmmscan w target_hmmfile query_sequence s3")
  then have "pr = Inr ()"
    using a pyhmmscan_outcome [of w target_hmmfile query_sequence s3 s0] by simp
  moreover have "run_hmmscan w target_hmmfile query_sequence opts results_file s =
      and_then (case results_file of None \<Rightarrow> (Inr (), s2)
                | Some path \<Rightarrow> write_text w path (stdout r) s2) (\<lambda>u s.
        and_then (pyhmmscan w target_hmmfile query_sequence s) (\<lambda>u s.
          (SearchIO_parse w (FromText (stdout r)) ''hmmer3-text'',
           emit (Parsed (FromText (stdout r)) ''hmmer3-text'') s)))"
    using a unfolding s2_def
    by (cases results_file) (simp_all add: run_hmmscan_def call_execute_def Let_def successful_def)
  ultimately
  show "fst (run_hmmscan w target_hmmfile query_sequence opts results_file s) =
        SearchIO_parse w (FromText (stdout r)) ''hmmer3-text''"
    using keep py by simp
next
  assume a: "(if use_tempfile
        then open_write w ''input.fa'' target_sequence = None \<and>
             execute w (launch_count (trace s))
               (hmmsearch_command (get_config w) query_hmmfile @ [''input.fa'']) None = Inr r
        else execute w (launch_count (trace s))
               (hmmsearch_command (get_config w) query_hmmfile @ [''-''])
               (Some target_sequence) = Inr r) \<and>
      return_code r = 0 \<and>
      fst (pyhmmsearch w query_hmmfile target_sequence use_tempfile s0) = Inr ()"
  obtain ar s' where att: "hmmsearch_attempt w query_hmmfile target_sequence use_tempfile
        (hmmsearch_command (get_config w) query_hmmfile) (emit EnteredTempDir s) = (ar, s')"
    by (cases "hmmsearch_attempt w query_hmmfile target_sequence use_tempfile
        (hmmsearch_command (get_config w) query_hmmfile) (emit EnteredTempDir s)")
  have "ar = Inr r"
    using a att attempt_after_launch [of use_tempfile w target_sequence "emit EnteredTempDir s"
        "hmmsearch_command (get_config w) query_hmmfile" r query_hmmfile s0]
    by (simp split: if_splits)
  with att a show "fst (run_hmmsearch w query_hmmfile target_sequence use_tempfile s) =
          SearchIO_parse w (FromFile ''result.domtab'') ''hmmsearch3-domtab''"
    by (simp add: run_hmmsearch_def Let_def successful_def)
next
  assume ret: "fst (run_hmmscan w target_hmmfile query_sequence opts results_file s) = Inr v"
  then have ne: "query_sequence \<noteq> []"
    by (auto simp: run_hmmscan_def)
  obtain hr s' where hp: "run_hmmscan_help w s = (hr, s')"
    by (cases "run_hmmscan_help w s")
  with ret ne obtain h where h: "hr = Inr h"
    by (cases hr) (simp_all add: run_hmmscan_def)
  define x where "x = execute w (launch_count (trace s'))
      (hmmscan_command (get_config w) h opts target_hmmfile) (Some query_sequence)"
  from ret ne hp h obtain r' where r': "x = Inr r'"
    by (cases x) (simp_all add: run_hmmscan_def call_execute_def Let_def x_def)
  from ret ne hp h r' have ok: "return_code r' = 0"
    by (auto simp: run_hmmscan_def call_execute_def Let_def x_def successful_def
        split: if_splits)
  from ret ne hp h r' ok
  have "SearchIO_parse w (FromText (stdout r')) ''hmmer3-text'' = Inr v"
    by (auto simp: run_hmmscan_def call_execute_def Let_def x_def successful_def and_then_def
        split: prod.splits sum.splits)
  with hp h r' ok show "\<exists>h s' r'. run_hmmscan_help w s = (Inr h, s') \<and>
           execute w (launch_count (trace s'))
             (hmmscan_command (get_config w) h opts target_hmmfile) (Some query_sequence) = Inr r' \<and>
           return_code r' = 0 \<and>
           SearchIO_parse w (FromText (stdout r')) ''hmmer3-text'' = Inr v"
    by (auto simp: x_def)
next
  assume ret: "fst (run_hmmsearch w query_hmmfile target_sequence use_tempfile s) = Inr v"
  obtain ar s' where att: "hmmsearch_attempt w query_hmmfile target_sequence use_tempfile
        (hmmsearch_command (get_config w) query_hmmfile) (emit EnteredTempDir s) = (ar, s')"
    by (cases "hmmsearch_attempt w query_hmmfile target_sequence use_tempfile
        (hmmsearch_command (get_config w) query_hmmfile) (emit EnteredTempDir s)")
  show "(v = [] \<and>
         (\<exists>msg. fst (hmmsearch_attempt w query_hmmfile target_sequence use_tempfile
                   (hmmsearch_command (get_config w) query_hmmfile) (emit EnteredTempDir s))
                 = Inl (OSError msg)))
        \<or> (\<exists>r'. fst (hmmsearch_attempt w query_hmmfile target_sequence use_tempfile
                   (hmmsearch_command (get_config w) query_hmmfile) (emit EnteredTempDir s))
                 = Inr r' \<and>
              return_code r' = 0 \<and>
              SearchIO_parse w (FromFile ''result.domtab'') ''hmmsearch3-domtab'' = Inr v)"
  proof (cases ar)
    case (Inl e)
    with ret att show ?thesis
      by (cases e) (simp_all add: run_hmmsearch_def Let_def)
  next
    case (Inr r')
    with ret att show ?thesis
      by (auto simp: run_hmmsearch_def Let_def successful_def split: if_splits)
  qed
qed

theorem returned_hits_are_parsed_witness:
  "fst (run_hmmscan (world0 (exit_with 0 ''hits'' [])) ''m.hmm'' ''>s'' None (Some ''out.txt'') state0)
     = Inr [1, 2]
   \<and> fst (run_hmmsearch (world0 (exit_with 0 [] [])) ''q.hmm'' ''>a'' True state0) = Inr [1, 2]
   \<and> fst (run_hmmsearch (world0 (exit_with 0 [] [])) ''q.hmm'' ''>a'' False state0) = Inr [1, 2]
   \<and> (\<exists>r' :: RunResult. return_code r' = 0 \<and>
         SearchIO_parse (world0 (exit_with 0 ''hits'' [])) (FromText (stdout r')) ''hmmer3-text''
           = Inr [1, 2])
   \<and> SearchIO_parse (world0 (exit_with 0 [] [])) (FromFile ''result.domtab'') ''hmmsearch3-domtab''
       = Inr [1, 2]"
proof -
  let ?w = "world0 (exit_with 0 ''hits'' [])"
  let ?v = "world0 (exit_with 0 [] [])"
  define s1 where "s1 = (emit (Executed [''hmmscan'', ''-h''] None (Inr scan_help0)) state0)
                          \<lparr>help_text := stdout scan_help0\<rparr>"
  have scan_ok: "query_sequence \<noteq> [] \<and> run_hmmscan_help ?w state0 = (Inr (stdout scan_help0), s1) \<and>
    execute ?w (launch_count (trace s1))
      (hmmscan_command (get_config ?w) (stdout scan_help0) None ''m.hmm'') (Some query_sequence)
      = Inr (exit_with 0 ''hits'' []) \<and>
    return_code (exit_with 0 ''hits'' []) = 0 \<and>
    (\<forall>path. Some ''out.txt'' = Some path \<longrightarrow>
        open_write ?w path (stdout (exit_with 0 ''hits'' [])) = None) \<and>
    fst (pyhmmscan ?w ''m.hmm'' query_sequence state0) = Inr ()"
    if "query_sequence = ''>s''" for query_sequence
    using that
    by (simp add: run_hmmscan_help_def call_execute_def Let_def world0_def
        config0_def execute0_def state0_def s1_def startswith_def scan_help0_def
        hmmscan_command_def exit_with_def pyhmmscan_def write_text_def write_hits_def)
  have parse_text: "SearchIO_parse ?w src fmt = Inr [1, 2]" for src fmt
    by (simp add: world0_def)
  have parse_file: "SearchIO_parse ?v src fmt = Inr [1, 2]" for src fmt
    by (simp add: world0_def)
  have a: "fst (run_hmmscan ?w ''m.hmm'' ''>s'' None (Some ''out.txt'') state0) = Inr [1, 2]"
    using returned_hits_are_parsed [where w = ?w and s = state0
      and probe_text = "stdout scan_help0" and ?s1.0 = s1 and opts = None
      and target_hmmfile = "''m.hmm''" and query_sequence = "''>s''"
      and r = "exit_with 0 ''hits'' []" and results_file = "Some ''out.txt''" and ?s0.0 = state0,
      THEN conjunct1, THEN mp, OF scan_ok]
    by (simp add: parse_text)
  have search_ok: "(if use_tempfile
        then open_write ?v ''input.fa'' ''>a'' = None \<and>
             execute ?v (launch_count (trace state0))
               (hmmsearch_command (get_config ?v) ''q.hmm'' @ [''input.fa'']) None
               = Inr (exit_with 0 [] [])
        else execute ?v (launch_count (trace state0))
               (hmmsearch_command (get_config ?v) ''q.hmm'' @ [''-'']) (Some ''>a'')
               = Inr (exit_with 0 [] [])) \<and>
      return_code (exit_with 0 [] []) = 0 \<and>
      fst (pyhmmsearch ?v ''q.hmm'' ''>a'' use_tempfile state0) = Inr ()" for use_tempfile
    by (simp add: world0_def config0_def execute0_def exit_with_def
        hmmsearch_command_def Let_def pyhmmsearch_def write_text_def write_hits_def)
  have b: "fst (run_hmmsearch ?v ''q.hmm'' ''>a'' use_tempfile state0) = Inr [1, 2]"
    for use_tempfile
    using returned_hits_are_parsed [where w = ?v and s = state0
      and query_hmmfile = "''q.hmm''" and target_sequence = "''>a''"
      and use_tempfile = use_tempfile and r = "exit_with 0 [] []" and ?s0.0 = state0,
      THEN conjunct2, THEN conjunct1, THEN mp, OF search_ok]
    by (simp add: parse_file)
  have c: "\<exists>r' :: RunResult. return_code r' = 0 \<and>
         SearchIO_parse ?w (FromText (stdout r')) ''hmmer3-text'' = Inr [1, 2]"
  proof -
    from returned_hits_are_parsed [where w = ?w and s = state0 and opts = None
      and target_hmmfile = "''m.hmm''" and query_sequence = "''>s''"
      and results_file = "Some ''out.txt''" and v = "[1, 2]",
      THEN conjunct2, THEN conjunct2, THEN conjunct1, THEN mp, OF a]
    obtain r' :: RunResult where "return_code r' = 0"
      and "SearchIO_parse ?w (FromText (stdout r')) ''hmmer3-text'' = Inr [1, 2]"
      by (elim exE conjE)
    then show ?thesis
      by (intro exI conjI)
  qed
  have "(([1, 2] :: nat list) = [] \<and>
         (\<exists>msg. fst (hmmsearch_attempt ?v ''q.hmm'' ''>a'' True
                   (hmmsearch_command (get_config ?v) ''q.hmm'') (emit EnteredTempDir state0))
                 = Inl (OSError msg)))
        \<or> (\<exists>r'. fst (hmmsearch_attempt ?v ''q.hmm'' ''>a'' True
                   (hmmsearch_command (get_config ?v) ''q.hmm'') (emit EnteredTempDir state0))
                 = Inr r' \<and>
              return_code r' = 0 \<and>
              SearchIO_parse ?v (FromFile ''result.domtab'') ''hmmsearch3-domtab'' = Inr [1, 2])"
    by (rule returned_hits_are_parsed [where w = ?v and s = state0
      and query_hmmfile = "''q.hmm''" and target_sequence = "''>a''"
      and use_tempfile = True and v = "[1, 2]",
      THEN conjunct2, THEN conjunct2, THEN conjunct2, THEN mp, OF b])
  then have d: "SearchIO_parse ?v (FromFile ''result.domtab'') ''hmmsearch3-domtab'' = Inr [1, 2]"
    by auto
  show ?thesis
    by (intro conjI a b c d)
qed

text \<open>
  Claim C8 as stated fails for \<open>run_hmmsearch\<close>: hmmsearch exits with code zero and the
  parser would read two results from its table, but pyhmmer cannot open the model file, and
  the OSError handler makes the call return the empty list.
\<close>

theorem hmmsearch_zero_exit_not_parsed:
  "run_hmmsearch (world_model_unreadable (exit_with 0 [] [])) ''q.hmm'' ''>a'' False state0 =
     (Inr [],
      \<lparr>help_text = [],
       trace =
         [EnteredTempDir,
          Executed [''hmmsearch'', ''--cpu'', ''4'', ''-o'', ''/dev/null'', ''--domtblout'',
                    ''result.domtab'', ''q.hmm'', ''-''] (Some ''>a'') (Inr (exit_with 0 [] [])),
          Logged ''INFO'' ''hmmsearch_time_2'',
          Wrote ''input_stdin_pyhmmer.fa'' ''>a'',
          LeftTempDir]\<rparr>)
   \<and> return_code (exit_with 0 [] []) = 0
   \<and> SearchIO_parse (world_model_unreadable (exit_with 0 [] [])) (FromFile ''result.domtab'')
        ''hmmsearch3-domtab'' = Inr [1, 2]"
  by (simp add: run_defs world_model_unreadable_def world0_simps emit_def str_int_def digits.simps)

section \<open>When the embedded search runs\<close>

lemma new_events_append: "trace s' = trace s @ evs \<Longrightarrow> new_events s s' = evs"
  by (simp add: new_events_def)

lemma no_shadow_ok:
  "\<forall>ev \<in> set evs. \<not> is_shadow_search ev \<Longrightarrow> shadow_only_after search ok a evs"
  by (induction search ok a evs rule: shadow_only_after.induct) simp_all

lemma no_launch_ok:
  "\<forall>ev \<in> set evs. \<not> is_launch ev \<Longrightarrow> shadow_only_after search ok True evs"
  by (induction search ok True evs rule: shadow_only_after.induct) simp_all

lemma after_launch:
  "\<forall>ev \<in> set evs. \<not> is_shadow_search ev \<and> \<not> launches search ev \<Longrightarrow>
   search command stdin \<Longrightarrow>
     shadow_only_after search ok a (evs @ Executed command stdin r # rest) =
     shadow_only_after search ok (case r of Inl e \<Rightarrow> False | Inr res \<Rightarrow> ok res) rest"
  by (induction search ok a evs rule: shadow_only_after.induct) simp_all

lemma scan_launch:
  "is_scan_launch target_hmmfile query_sequence
     (hmmscan_command config probe_text opts target_hmmfile) (Some query_sequence)"
  by (simp add: is_scan_launch_def hmmscan_command_def Let_def split: option.split)

lemma write_text_trace:
  "\<exists>evs. trace (snd (write_text w path content s)) = trace s @ evs
     \<and> (\<forall>ev \<in> set evs. \<not> is_launch ev \<and> \<not> is_shadow_search ev)"
  by (simp add: write_text_def split: option.split)

lemma pyhmmscan_trace:
  "\<exists>evs. trace (snd (pyhmmscan w target_hmmfile query_sequence s)) = trace s @ evs
     \<and> (\<forall>ev \<in> set evs. \<not> is_launch ev)"
  by (simp add: pyhmmscan_def write_text_def and_then_def check_def
      split: option.split sum.split)

lemma pyhmmsearch_trace:
  "\<exists>evs. trace (snd (pyhmmsearch w query_hmmfile target_sequence use_tempfile s)) = trace s @ evs
     \<and> (\<forall>ev \<in> set evs. \<not> is_launch ev)"
  by (simp add: pyhmmsearch_def write_text_def and_then_def check_def
      split: option.split sum.split)

lemma help_trace:
  "\<exists>evs. trace (snd (run_hmmscan_help w s)) = trace s @ evs
     \<and> (\<forall>ev \<in> set evs. \<not> is_shadow_search ev
            \<and> \<not> launches (is_scan_launch target_hmmfile query_sequence) ev)"
  by (simp add: run_hmmscan_help_def call_execute_def Let_def and_then_def is_scan_launch_def
      split: sum.split)

lemma hmmscan_order:
  "shadow_only_after (is_scan_launch target_hmmfile query_sequence) successful False
     (new_events s (snd (run_hmmscan w target_hmmfile query_sequence opts results_file s)))"
proof (cases "query_sequence = []")
  case True
  then show ?thesis
    by (simp add: run_hmmscan_def new_events_def)
next
  case False
  obtain hr s1 where hp: "run_hmmscan_help w s = (hr, s1)"
    by (cases "run_hmmscan_help w s")
  obtain hevs where t1: "trace s1 = trace s @ hevs"
    and h1: "\<forall>ev \<in> set hevs. \<not> is_shadow_search ev
        \<and> \<not> launches (is_scan_launch target_hmmfile query_sequence) ev"
    using help_trace [of w s target_hmmfile query_sequence] hp by auto
  show ?thesis
  proof (cases hr)
    case (Inl e)
    with hp False
    have "snd (run_hmmscan w target_hmmfile query_sequence opts results_file s) = s1"
      by (simp add: run_hmmscan_def)
    with t1 h1 show ?thesis
      by (simp add: new_events_append no_shadow_ok)
  next
    case (Inr h)
    define cmd where "cmd = hmmscan_command (get_config w) h opts target_hmmfile"
    have recognised: "is_scan_launch target_hmmfile query_sequence cmd (Some query_sequence)"
      by (simp add: cmd_def scan_launch)
    define x where "x = execute w (launch_count (trace s1)) cmd (Some query_sequence)"
    define launch where "launch = Executed cmd (Some query_sequence) x"
    define s2 where "s2 = emit (Logged ''INFO'' ''hmmscan_time'') (emit launch s1)"
    have t2: "trace s2 = trace s @ hevs @ [launch, Logged ''INFO'' ''hmmscan_time'']"
      by (simp add: s2_def t1)
    show ?thesis
    proof (cases x)
      case (Inl e)
      have "snd (run_hmmscan w target_hmmfile query_sequence opts results_file s) = emit launch s1"
        using hp False Inr Inl x_def
        by (simp add: run_hmmscan_def call_execute_def Let_def cmd_def launch_def)
      then have "new_events s (snd (run_hmmscan w target_hmmfile query_sequence opts results_file s))
          = hevs @ [launch]"
        by (simp add: new_events_append t1)
      then show ?thesis
        using h1 recognised by (simp add: launch_def after_launch)
    next
      case r: (Inr r)
      show ?thesis
      proof (cases "successful r")
        case False
        have "snd (run_hmmscan w target_hmmfile query_sequence opts results_file s) = s2"
          using hp \<open>query_sequence \<noteq> []\<close> Inr r x_def False
          by (simp add: run_hmmscan_def call_execute_def Let_def cmd_def launch_def s2_def)
        then have "new_events s (snd (run_hmmscan w target_hmmfile query_sequence opts results_file s))
            = hevs @ launch # [Logged ''INFO'' ''hmmscan_time'']"
          by (simp add: new_events_append t2)
        then show ?thesis
          using h1 recognised by (simp add: launch_def after_launch r)
      next
        case True
        define keep where "keep = (case results_file of
                          None \<Rightarrow> (Inr (), s2)
                        | Some path \<Rightarrow> write_text w path (stdout r) s2)"
        have "\<exists>wevs. trace (snd keep) = trace s2 @ wevs \<and> (\<forall>ev \<in> set wevs. \<not> is_launch ev)"
        proof (cases results_file)
          case None
          then show ?thesis by (simp add: keep_def)
        next
          case (Some path)
          with write_text_trace [of w path "stdout r" s2] show ?thesis
            by (auto simp: keep_def)
        qed
        then obtain wevs where t3: "trace (snd keep) = trace s2 @ wevs"
          and h3: "\<forall>ev \<in> set wevs. \<not> is_launch ev"
          by blast
        obtain pevs where t4: "trace (snd (pyhmmscan w target_hmmfile query_sequence (snd keep)))
              = trace (snd keep) @ pevs"
          and h4: "\<forall>ev \<in> set pevs. \<not> is_launch ev"
          using pyhmmscan_trace [of w target_hmmfile query_sequence "snd keep"] by auto
        have run: "run_hmmscan w target_hmmfile query_sequence opts results_file s =
            and_then keep (\<lambda>u s.
              and_then (pyhmmscan w target_hmmfile query_sequence s) (\<lambda>u s.
                (SearchIO_parse w (FromText (stdout r)) ''hmmer3-text'',
                 emit (Parsed (FromText (stdout r)) ''hmmer3-text'') s)))"
          using hp \<open>query_sequence \<noteq> []\<close> Inr r True
          unfolding keep_def s2_def launch_def x_def cmd_def
          by (cases results_file) (simp_all add: run_hmmscan_def call_execute_def Let_def)
        have "\<exists>rest. new_events s (snd (run_hmmscan w target_hmmfile query_sequence opts results_file s))
            = hevs @ launch # rest \<and> (\<forall>ev \<in> set rest. \<not> is_launch ev)"
        proof (cases keep)
          case (Pair kr s3)
          show ?thesis
          proof (cases kr)
            case (Inl e)
            with Pair run t3 t2 h3 show ?thesis
              by (simp add: new_events_append)
          next
            case (Inr u)
            obtain pr s4 where py: "pyhmmscan w target_hmmfile query_sequence s3 = (pr, s4)"
              by (cases "pyhmmscan w target_hmmfile query_sequence s3")
            with Pair Inr run t3 t4 t2 h3 h4 show ?thesis
              by (cases pr) (auto simp: new_events_append)
          qed
        qed
        then show ?thesis
          using h1 True recognised by (auto simp: launch_def after_launch r no_launch_ok)
      qed
    qed
  qed
qed

lemma no_shadow_tail:
  "\<forall>ev \<in> set evs'. \<not> is_shadow_search ev \<Longrightarrow>
     shadow_only_after search ok a (evs @ evs') = shadow_only_after search ok a evs"
  by (induction search ok a evs rule: shadow_only_after.induct) (simp_all add: no_shadow_ok)

lemma after_execute_trace:
  assumes recognised: "search command stdin"
  shows "\<exists>evs. trace (snd (and_then (call_execute w command stdin s) (\<lambda>run_result s.
        and_then (pyhmmsearch w query_hmmfile target_sequence use_tempfile (emit (Logged level label) s)) (\<lambda>u s.
          (Inr run_result, s))))) = trace s @ evs
     \<and> shadow_only_after search (\<lambda>r. True) a evs"
proof -
  define x where "x = execute w (launch_count (trace s)) command stdin"
  define s1 where "s1 = emit (Executed command stdin x) s"
  have call: "call_execute w command stdin s = (x, s1)"
    by (simp add: call_execute_def Let_def x_def s1_def)
  show ?thesis
  proof (cases x)
    case (Inl e)
    with call recognised show ?thesis
      by (simp add: s1_def)
  next
    case (Inr r)
    obtain pevs where t: "trace (snd (pyhmmsearch w query_hmmfile target_sequence use_tempfile (emit (Logged level label) s1)))
        = trace (emit (Logged level label) s1) @ pevs"
      and h: "\<forall>ev \<in> set pevs. \<not> is_launch ev"
      using pyhmmsearch_trace [of w query_hmmfile target_sequence use_tempfile "emit (Logged level label) s1"] by auto
    obtain pr s2 where py:
      "pyhmmsearch w query_hmmfile target_sequence use_tempfile (emit (Logged level label) s1) = (pr, s2)"
      by (cases "pyhmmsearch w query_hmmfile target_sequence use_tempfile (emit (Logged level label) s1)")
    have "shadow_only_after search (\<lambda>r. True) True (Logged level label # pevs)"
      using h by (simp add: no_launch_ok)
    with call Inr py t recognised show ?thesis
      by (cases pr) (simp_all add: s1_def)
  qed
qed

lemma attempt_trace:
  "\<exists>evs. trace (snd (hmmsearch_attempt w query_hmmfile target_sequence use_tempfile command s))
       = trace s @ evs
     \<and> shadow_only_after (is_search_launch use_tempfile target_sequence) (\<lambda>r. True) a evs"
proof (cases use_tempfile)
  case False
  have "is_search_launch False target_sequence (command @ [''-'']) (Some target_sequence)"
    by (simp add: is_search_launch_def)
  from after_execute_trace [where search = "is_search_launch False target_sequence"
        and command = "command @ [''-'']" and stdin = "Some target_sequence" and w = w
        and s = s and query_hmmfile = query_hmmfile and target_sequence = target_sequence
        and use_tempfile = False and level = "''INFO''" and label = "''hmmsearch_time_2''"
        and a = a, OF this] False
  show ?thesis
    by (simp add: hmmsearch_attempt_def)
next
  case True
  show ?thesis
  proof (cases "open_write w ''input.fa'' target_sequence")
    case (Some e)
    with True show ?thesis
      by (simp add: hmmsearch_attempt_def write_text_def)
  next
    case None
    define s1 where "s1 = emit (Wrote ''input.fa'' target_sequence) s"
    have launch: "is_search_launch True target_sequence (command @ [''input.fa'']) None"
      by (simp add: is_search_launch_def)
    obtain evs where "trace (snd (and_then (call_execute w (command @ [''input.fa'']) None s1)
        (\<lambda>run_result s.
          and_then (pyhmmsearch w query_hmmfile target_sequence True
                      (emit (Logged ''INFO'' ''hmmsearch_time_1'') s)) (\<lambda>u s.
            (Inr run_result, s))))) = trace s1 @ evs"
      and "shadow_only_after (is_search_launch True target_sequence) (\<lambda>r. True) a evs"
      using after_execute_trace [where search = "is_search_launch True target_sequence"
        and command = "command @ [''input.fa'']" and stdin = None and w = w
        and s = s1 and query_hmmfile = query_hmmfile and target_sequence = target_sequence
        and use_tempfile = True and level = "''INFO''" and label = "''hmmsearch_time_1''"
        and a = a, OF launch]
      by blast
    with True None show ?thesis
      by (simp add: hmmsearch_attempt_def write_text_def s1_def)
  qed
qed

lemma hmmsearch_order:
  "shadow_only_after (is_search_launch use_tempfile target_sequence) (\<lambda>r. True) False
     (new_events s (snd (run_hmmsearch w query_hmmfile target_sequence use_tempfile s)))"
proof -
  define command where "command = hmmsearch_command (get_config w) query_hmmfile"
  obtain evs where t: "trace (snd (hmmsearch_attempt w query_hmmfile target_sequence use_tempfile
        command (emit EnteredTempDir s))) = trace (emit EnteredTempDir s) @ evs"
    and h: "shadow_only_after (is_search_launch use_tempfile target_sequence) (\<lambda>r. True)
        False evs"
    using attempt_trace [of w query_hmmfile target_sequence use_tempfile command
        "emit EnteredTempDir s" False]
    by blast
  obtain ar s1 where att: "hmmsearch_attempt w query_hmmfile target_sequence use_tempfile
        command (emit EnteredTempDir s) = (ar, s1)"
    by (cases "hmmsearch_attempt w query_hmmfile target_sequence use_tempfile
        command (emit EnteredTempDir s)")
  have "\<exists>tail. new_events s (snd (run_hmmsearch w query_hmmfile target_sequence use_tempfile s))
      = (EnteredTempDir # evs) @ tail \<and> (\<forall>ev \<in> set tail. \<not> is_shadow_search ev)"
    using att t
    by (cases ar)
      (simp_all add: run_hmmsearch_def Let_def command_def [symmetric] new_events_append)
  then obtain tail where
    "new_events s (snd (run_hmmsearch w query_hmmfile target_sequence use_tempfile s))
      = (EnteredTempDir # evs) @ tail"
    and "\<forall>ev \<in> set tail. \<not> is_shadow_search ev"
    by blast
  with h show ?thesis
    by (simp only: no_shadow_tail) simp
qed

text \<open>
  Claim C9, as amended. In \<open>run_hmmscan\<close> the embedded search runs only after the search
  process of the request (the launch that is fed the query, not the \<open>-h\<close> probe) has been
  launched and has come back with exit code zero. In \<open>run_hmmsearch\<close> it runs only after
  the search process of the request has been launched and has come back, whatever its
  exit code: the exit code is looked at after the \<open>try\<close> block. In neither does it run when
  the search process never ran or when its launch raised.
\<close>

theorem shadow_search_order:
  "shadow_only_after (is_scan_launch target_hmmfile query_sequence) successful False
     (new_events s (snd (run_hmmscan w target_hmmfile query_sequence opts results_file s)))
   \<and> shadow_only_after (is_search_launch use_tempfile target_sequence) (\<lambda>r. True) False
     (new_events s (snd (run_hmmsearch w query_hmmfile target_sequence use_tempfile s)))"
  by (simp add: hmmscan_order hmmsearch_order)

text \<open>
  Claim C9 as stated fails for \<open>run_hmmsearch\<close>: hmmsearch exits with code 1 and the
  embedded search still runs, before the call raises.
\<close>

theorem hmmsearch_shadow_after_failure:
  "new_events state0
     (snd (run_hmmsearch (world0 (exit_with 1 [] ''Error: bad model'')) ''q.hmm'' ''>a'' False state0)) =
     [EnteredTempDir,
      Executed [''hmmsearch'', ''--cpu'', ''4'', ''-o'', ''/dev/null'', ''--domtblout'',
                ''result.domtab'', ''q.hmm'', ''-''] (Some ''>a'')
        (Inr (exit_with 1 [] ''Error: bad model'')),
      Logged ''INFO'' ''hmmsearch_time_2'',
      Wrote ''input_stdin_pyhmmer.fa'' ''>a'',
      PyhmmerSearch ''hmmsearch'',
      Logged ''INFO'' ''pyhmmsearch_time_2'',
      Logged ''ERROR'' ''hmmsearch returned 1: Error: bad model while searching q.hmm'',
      LeftTempDir]
   \<and> \<not> shadow_only_after (is_search_launch False ''>a'') successful False
     (new_events state0
       (snd (run_hmmsearch (world0 (exit_with 1 [] ''Error: bad model'')) ''q.hmm'' ''>a'' False state0)))"
  by (simp add: run_defs world0_simps emit_def new_events_def hmmsearch_failure_log_def
      str_int_def digits.simps is_search_launch_def)

lemma probe_is_not_the_search:
  "\<not> shadow_only_after (is_scan_launch ''m.hmm'' ''>s'') successful False
       [Executed [''hmmscan'', ''-h''] None (Inr scan_help0),
        PyhmmerSearch ''hmmscan'',
        Executed [''hmmscan'', ''--nobias'', ''m.hmm'', ''-''] (Some ''>s'')
          (Inr (exit_with 1 [] []))]
   \<and> \<not> shadow_only_after (is_scan_launch ''m.hmm'' ''>s'') successful False
       [Executed [''hmmscan'', ''-h''] None (Inr scan_help0),
        Executed [''hmmscan'', ''--nobias'', ''m.hmm'', ''-''] (Some ''>s'')
          (Inr (exit_with 1 [] [])),
        PyhmmerSearch ''hmmscan'']
   \<and> shadow_only_after (is_scan_launch ''m.hmm'' ''>s'') successful False
       [Executed [''hmmscan'', ''-h''] None (Inr scan_help0),
        Executed [''hmmscan'', ''--nobias'', ''m.hmm'', ''-''] (Some ''>s'')
          (Inr (exit_with 0 ''hits'' [])),
        PyhmmerSearch ''hmmscan'']"
  by (simp add: is_scan_launch_def successful_def exit_with_def)

section \<open>OSError inside the try block of hmmsearch\<close>

text \<open>
  Claim C10, as amended. If the \<open>try\<close> block of \<open>run_hmmsearch\<close> raises an OSError, the call
  returns the empty list and raises nothing, and after the block it does nothing but
  leave the temporary directory: no error is logged for the exit code and nothing is
  parsed. The block raises the OSError that comes from writing \<open>input.fa\<close> (nothing is
  launched then), from launching the process (in either branch), and from the embedded
  search once the process has come back, whatever its exit code. The handler ends with
  the \<open>try\<close> block: an OSError that the parsing of \<open>result.domtab\<close> raises afterwards,
  still inside the temporary-directory block, is raised to the caller.
\<close>

theorem hmmsearch_oserror_returns_empty:
  "(fst (hmmsearch_attempt w query_hmmfile target_sequence use_tempfile
          (hmmsearch_command (get_config w) query_hmmfile) (emit EnteredTempDir s))
      = Inl (OSError msg) \<longrightarrow>
      run_hmmsearch w query_hmmfile target_sequence use_tempfile s =
        (Inr [],
         emit LeftTempDir
           (snd (hmmsearch_attempt w query_hmmfile target_sequence use_tempfile
                  (hmmsearch_command (get_config w) query_hmmfile) (emit EnteredTempDir s)))))
   \<and> (open_write w ''input.fa'' target_sequence = Some (OSError msg) \<longrightarrow>
        hmmsearch_attempt w query_hmmfile target_sequence True command s' = (Inl (OSError msg), s'))
   \<and> (open_write w ''input.fa'' target_sequence = None \<and>
      execute w (launch_count (trace s')) (command @ [''input.fa'']) None = Inl (OSError msg) \<longrightarrow>
        fst (hmmsearch_attempt w query_hmmfile target_sequence True command s') = Inl (OSError msg))
   \<and> (execute w (launch_count (trace s')) (command @ [''-'']) (Some target_sequence)
        = Inl (OSError msg) \<longrightarrow>
        fst (hmmsearch_attempt w query_hmmfile target_sequence False command s') = Inl (OSError msg))
   \<and> ((if use_tempfile
        then open_write w ''input.fa'' target_sequence = None \<and>
             execute w (launch_count (trace s')) (command @ [''input.fa'']) None = Inr r
        else execute w (launch_count (trace s')) (command @ [''-'']) (Some target_sequence) = Inr r)
      \<and> fst (pyhmmsearch w query_hmmfile target_sequence use_tempfile s'') = Inl (OSError msg) \<longrightarrow>
        fst (hmmsearch_attempt w query_hmmfile target_sequence use_tempfile command s')
          = Inl (OSError msg))
   \<and> (fst (hmmsearch_attempt w query_hmmfile target_sequence use_tempfile
            (hmmsearch_command (get_config w) query_hmmfile) (emit EnteredTempDir s)) = Inr r \<and>
      return_code r = 0 \<and>
      SearchIO_parse w (FromFile ''result.domtab'') ''hmmsearch3-domtab'' = Inl (OSError msg) \<longrightarrow>
        fst (run_hmmsearch w query_hmmfile target_sequence use_tempfile s) = Inl (OSError msg))"
proof (intro conjI impI)
  assume "fst (hmmsearch_attempt w query_hmmfile target_sequence use_tempfile
          (hmmsearch_command (get_config w) query_hmmfile) (emit EnteredTempDir s))
      = Inl (OSError msg)"
  then show "run_hmmsearch w query_hmmfile target_sequence use_tempfile s =
        (Inr [],
         emit LeftTempDir
           (snd (hmmsearch_attempt w query_hmmfile target_sequence use_tempfile
                  (hmmsearch_command (get_config w) query_hmmfile) (emit EnteredTempDir s))))"
    by (cases "hmmsearch_attempt w query_hmmfile target_sequence use_tempfile
          (hmmsearch_command (get_config w) query_hmmfile) (emit EnteredTempDir s)")
      (simp add: run_hmmsearch_def Let_def)
next
  assume "open_write w ''input.fa'' target_sequence = Some (OSError msg)"
  then show "hmmsearch_attempt w query_hmmfile target_sequence True command s'
      = (Inl (OSError msg), s')"
    by (simp add: hmmsearch_attempt_def write_text_def)
next
  assume "open_write w ''input.fa'' target_sequence = None \<and>
      execute w (launch_count (trace s')) (command @ [''input.fa'']) None = Inl (OSError msg)"
  then show "fst (hmmsearch_attempt w query_hmmfile target_sequence True command s')
      = Inl (OSError msg)"
    by (simp add: hmmsearch_attempt_def write_text_def call_execute_def Let_def)
next
  assume "execute w (launch_count (trace s')) (command @ [''-'']) (Some target_sequence)
        = Inl (OSError msg)"
  then show "fst (hmmsearch_attempt w query_hmmfile target_sequence False command s')
      = Inl (OSError msg)"
    by (simp add: hmmsearch_attempt_def call_execute_def Let_def)
next
  assume a: "(if use_tempfile
        then open_write w ''input.fa'' target_sequence = None \<and>
             execute w (launch_count (trace s')) (command @ [''input.fa'']) None = Inr r
        else execute w (launch_count (trace s')) (command @ [''-'']) (Some target_sequence) = Inr r)
      \<and> fst (pyhmmsearch w query_hmmfile target_sequence use_tempfile s'') = Inl (OSError msg)"
  then show "fst (hmmsearch_attempt w query_hmmfile target_sequence use_tempfile command s')
      = Inl (OSError msg)"
    using attempt_after_launch [of use_tempfile w target_sequence s' command r query_hmmfile s'']
    by simp
next
  assume "fst (hmmsearch_attempt w query_hmmfile target_sequence use_tempfile
            (hmmsearch_command (get_config w) query_hmmfile) (emit EnteredTempDir s)) = Inr r \<and>
      return_code r = 0 \<and>
      SearchIO_parse w (FromFile ''result.domtab'') ''hmmsearch3-domtab'' = Inl (OSError msg)"
  then show "fst (run_hmmsearch w query_hmmfile target_sequence use_tempfile s) = Inl (OSError msg)"
    by (cases "hmmsearch_attempt w query_hmmfile target_sequence use_tempfile
          (hmmsearch_command (get_config w) query_hmmfile) (emit EnteredTempDir s)")
      (simp add: run_hmmsearch_def Let_def successful_def)
qed

theorem hmmsearch_oserror_returns_empty_witness:
  "run_hmmsearch world_write_fails ''q.hmm'' ''>a'' True state0 =
     (Inr [], \<lparr>help_text = [], trace = [EnteredTempDir, LeftTempDir]\<rparr>)
   \<and> fst (run_hmmsearch world_not_installed ''q.hmm'' ''>a'' True state0) = Inr []
   \<and> fst (run_hmmsearch world_not_installed ''q.hmm'' ''>a'' False state0) = Inr []
   \<and> fst (run_hmmsearch (world_model_unreadable (exit_with 1 [] ''Error: bad model''))
           ''q.hmm'' ''>a'' False state0) = Inr []
   \<and> fst (run_hmmsearch world_table_missing ''q.hmm'' ''>a'' True state0)
       = Inl (OSError ''No such file'')"
proof (intro conjI)
  let ?s = "emit EnteredTempDir state0"
  have full: "open_write world_write_fails ''input.fa'' ''>a'' = Some (OSError ''No space left'')"
    by (simp add: world_write_fails_def)
  note t1 = hmmsearch_oserror_returns_empty [where w = world_write_fails
      and query_hmmfile = "''q.hmm''" and target_sequence = "''>a''" and use_tempfile = True
      and s = state0 and msg = "''No space left''"
      and command = "hmmsearch_command (get_config world_write_fails) ''q.hmm''" and s' = ?s]
  have a1: "hmmsearch_attempt world_write_fails ''q.hmm'' ''>a'' True
      (hmmsearch_command (get_config world_write_fails) ''q.hmm'') ?s
      = (Inl (OSError ''No space left''), ?s)"
    by (rule t1 [THEN conjunct2, THEN conjunct1, THEN mp, OF full])
  then have "fst (hmmsearch_attempt world_write_fails ''q.hmm'' ''>a'' True
      (hmmsearch_command (get_config world_write_fails) ''q.hmm'') ?s)
      = Inl (OSError ''No space left'')"
    by simp
  from t1 [THEN conjunct1, THEN mp, OF this]
  show "run_hmmsearch world_write_fails ''q.hmm'' ''>a'' True state0 =
     (Inr [], \<lparr>help_text = [], trace = [EnteredTempDir, LeftTempDir]\<rparr>)"
    by (simp add: a1) (simp add: emit_def state0_def)
next
  let ?s = "emit EnteredTempDir state0"
  let ?c = "hmmsearch_command (get_config world_not_installed) ''q.hmm''"
  have missing: "open_write world_not_installed ''input.fa'' ''>a'' = None \<and>
      execute world_not_installed (launch_count (trace ?s)) (?c @ [''input.fa'']) None
        = Inl (OSError ''No such file'')"
    by (simp add: world_not_installed_def world0_def)
  note t2 = hmmsearch_oserror_returns_empty [where w = world_not_installed
      and query_hmmfile = "''q.hmm''" and target_sequence = "''>a''" and use_tempfile = True
      and s = state0 and msg = "''No such file''" and command = ?c and s' = ?s]
  from t2 [THEN conjunct1, THEN mp,
      OF t2 [THEN conjunct2, THEN conjunct2, THEN conjunct1, THEN mp, OF missing]]
  show "fst (run_hmmsearch world_not_installed ''q.hmm'' ''>a'' True state0) = Inr []"
    by simp
next
  let ?s = "emit EnteredTempDir state0"
  let ?c = "hmmsearch_command (get_config world_not_installed) ''q.hmm''"
  have missing: "execute world_not_installed (launch_count (trace ?s)) (?c @ [''-''])
      (Some ''>a'') = Inl (OSError ''No such file'')"
    by (simp add: world_not_installed_def)
  note t3 = hmmsearch_oserror_returns_empty [where w = world_not_installed
      and query_hmmfile = "''q.hmm''" and target_sequence = "''>a''" and use_tempfile = False
      and s = state0 and msg = "''No such file''" and command = ?c and s' = ?s]
  from t3 [THEN conjunct1, THEN mp,
      OF t3 [THEN conjunct2, THEN conjunct2, THEN conjunct2, THEN conjunct1, THEN mp, OF missing]]
  show "fst (run_hmmsearch world_not_installed ''q.hmm'' ''>a'' False state0) = Inr []"
    by simp
next
  let ?w = "world_model_unreadable (exit_with 1 [] ''Error: bad model'')"
  let ?s = "emit EnteredTempDir state0"
  let ?c = "hmmsearch_command (get_config ?w) ''q.hmm''"
  have shadow: "(if False
        then open_write ?w ''input.fa'' ''>a'' = None \<and>
             execute ?w (launch_count (trace ?s)) (?c @ [''input.fa'']) None
               = Inr (exit_with 1 [] ''Error: bad model'')
        else execute ?w (launch_count (trace ?s)) (?c @ [''-'']) (Some ''>a'')
               = Inr (exit_with 1 [] ''Error: bad model''))
      \<and> fst (pyhmmsearch ?w ''q.hmm'' ''>a'' False state0) = Inl (OSError ''Permission denied'')"
    by (simp add: world_model_unreadable_def world0_def config0_def execute0_def
        hmmsearch_command_def Let_def pyhmmsearch_def write_text_def)
  note t4 = hmmsearch_oserror_returns_empty [where w = ?w
      and query_hmmfile = "''q.hmm''" and target_sequence = "''>a''" and use_tempfile = False
      and s = state0 and msg = "''Permission denied''" and command = ?c and s' = ?s
      and s'' = state0 and r = "exit_with 1 [] ''Error: bad model''"]
  from t4 [THEN conjunct1, THEN mp,
      OF t4 [THEN conjunct2, THEN conjunct2, THEN conjunct2, THEN conjunct2, THEN conjunct1,
        THEN mp, OF shadow]]
  show "fst (run_hmmsearch ?w ''q.hmm'' ''>a'' False state0) = Inr []"
    by simp
next
  have parse: "fst (hmmsearch_attempt world_table_missing ''q.hmm'' ''>a'' True
        (hmmsearch_command (get_config world_table_missing) ''q.hmm'')
        (emit EnteredTempDir state0)) = Inr (exit_with 0 [] []) \<and>
      return_code (exit_with 0 [] []) = 0 \<and>
      SearchIO_parse world_table_missing (FromFile ''result.domtab'') ''hmmsearch3-domtab''
        = Inl (OSError ''No such file'')"
    by (simp add: run_defs world_table_missing_def world0_simps emit_def)
  from hmmsearch_oserror_returns_empty [where w = world_table_missing
      and query_hmmfile = "''q.hmm''" and target_sequence = "''>a''" and use_tempfile = True
      and s = state0 and msg = "''No such file''" and r = "exit_with 0 [] []",
      THEN conjunct2, THEN conjunct2, THEN conjunct2, THEN conjunct2, THEN conjunct2,
      THEN mp, OF parse]
  show "fst (run_hmmsearch world_table_missing ''q.hmm'' ''>a'' True state0)
      = Inl (OSError ''No such file'')" .
qed

text \<open>
  Claim C10 as stated fails for an OSError raised inside the temporary-directory block but
  after the \<open>try\<close> block. hmmsearch exits with code zero and the embedded search completes;
  the parser then cannot open \<open>result.domtab\<close>. The OSError is raised before the
  directory is left, and the call raises it: it does not return the empty list.
\<close>

theorem hmmsearch_parse_oserror_propagates:
  "run_hmmsearch world_table_missing ''q.hmm'' ''>a'' False state0 =
     (Inl (OSError ''No such file''),
      \<lparr>help_text = [],
       trace =
         [EnteredTempDir,
          Executed [''hmmsearch'', ''--cpu'', ''4'', ''-o'', ''/dev/null'', ''--domtblout'',
                    ''result.domtab'', ''q.hmm'', ''-''] (Some ''>a'') (Inr (exit_with 0 [] [])),
          Logged ''INFO'' ''hmmsearch_time_2'',
          Wrote ''input_stdin_pyhmmer.fa'' ''>a'',
          PyhmmerSearch ''hmmsearch'',
          Logged ''INFO'' ''pyhmmsearch_time_2'',
          Parsed (FromFile ''result.domtab'') ''hmmsearch3-domtab'',
          LeftTempDir]\<rparr>)
   \<and> fst (run_hmmsearch world_table_missing ''q.hmm'' ''>a'' False state0) \<noteq> Inr []"
  by (simp add: run_defs world_table_missing_def world0_simps emit_def str_int_def digits.simps)


end
